theory Spec2Isabelle
  imports Main
begin

section \<open>Strings and errors\<close>

text \<open>
  JavaScript strings are modelled as HOL strings.  \<open>String.prototype.includes\<close> is the
  test for a contiguous substring.
\<close>

fun starts_with :: "string \<Rightarrow> string \<Rightarrow> bool" where
  "starts_with s [] = True"
| "starts_with [] (c # t) = False"
| "starts_with (d # s) (c # t) = (d = c \<and> starts_with s t)"

fun js_includes :: "string \<Rightarrow> string \<Rightarrow> bool" where
  "js_includes [] t = (t = [])"
| "js_includes (d # s) t = (starts_with (d # s) t \<or> js_includes s t)"

text \<open>An \<open>Error\<close> object: the two properties the code reads are \<open>name\<close> and \<open>message\<close>.\<close>

datatype error = Error (name: string) (message: string)

section \<open>utils/helpers.js: retry and shouldRetryError\<close>

text \<open>
  The options object of \<open>retry\<close>, after destructuring with its defaults
  (\<open>maxRetries = 3\<close>, \<open>baseDelay = 1000\<close>, \<open>exponentialBackoff = true\<close>,
  \<open>retryCondition = () => true\<close>).
\<close>

record retry_options =
  maxRetries :: int
  baseDelay :: int
  exponentialBackoff :: bool
  retryCondition :: "error \<Rightarrow> bool"

definition default_retry_options :: retry_options where
  "default_retry_options =
     \<lparr>maxRetries = 3, baseDelay = 1000, exponentialBackoff = True, retryCondition = (\<lambda>e. True)\<rparr>"

text \<open>
  What \<open>retry\<close> does, in order: each call of \<open>operation\<close> with its outcome, and each call
  of \<open>delay\<close> with its argument.
\<close>

datatype 'a retry_event = is_Attempt: Attempt "error + 'a" | Delay int

text \<open>
  The \<open>for\<close> loop of \<open>retry\<close>, entered with the loop variable \<open>attempt\<close> and the current
  \<open>lastError\<close> (\<open>None\<close> is \<open>undefined\<close>).  An operation is a function of the world \<open>'w\<close> that
  returns its outcome (\<open>Inl\<close> a thrown error) and the new world; \<open>delay\<close> lets the world
  evolve for the given number of milliseconds (\<open>retryDelay\<close> is the source's local constant
  of that name).  After the loop, \<open>lastError.message\<close> is
  read for the log line, which throws a \<open>TypeError\<close> when the loop body never ran.
\<close>

definition retryDelay :: "retry_options \<Rightarrow> int \<Rightarrow> int" where
  "retryDelay opts attempt =
     (if exponentialBackoff opts then baseDelay opts * 2 ^ nat (attempt - 1) else baseDelay opts)"

function retry_loop ::
  "(int \<Rightarrow> 'w \<Rightarrow> 'w) \<Rightarrow> ('w \<Rightarrow> (error + 'a) \<times> 'w) \<Rightarrow> retry_options \<Rightarrow>
   int \<Rightarrow> error option \<Rightarrow> 'w \<Rightarrow> ((error + 'a) \<times> 'w) \<times> 'a retry_event list" where
  "retry_loop delay operation opts attempt lastError w =
     (if attempt \<le> maxRetries opts + 1 then
        (case operation w of
           (Inr result, w') \<Rightarrow> ((Inr result, w'), [Attempt (Inr result)])
         | (Inl e, w') \<Rightarrow>
             (if \<not> retryCondition opts e \<or> attempt \<ge> maxRetries opts + 1
              then ((Inl e, w'), [Attempt (Inl e)])
              else
                (let ms = retryDelay opts attempt;
                     (r, evs) = retry_loop delay operation opts (attempt + 1) (Some e)
                                  (delay ms w')
                 in (r, Attempt (Inl e) # Delay ms # evs))))
      else
        (case lastError of
           Some e \<Rightarrow> ((Inl e, w), [])
         | None \<Rightarrow>
             ((Inl (Error ''TypeError''
                 (''Cannot read properties of undefined (reading '' @ [CHR 0x27] @
                  ''message'' @ [CHR 0x27] @ '')'')), w), [])))"
  by pat_completeness auto
termination
  by (relation "measure (\<lambda>(delay, operation, opts, attempt, lastError, w).
                   nat (maxRetries opts + 2 - attempt))") auto

declare retry_loop.simps [simp del]

definition retry_run ::
  "(int \<Rightarrow> 'w \<Rightarrow> 'w) \<Rightarrow> ('w \<Rightarrow> (error + 'a) \<times> 'w) \<Rightarrow> retry_options \<Rightarrow>
   'w \<Rightarrow> ((error + 'a) \<times> 'w) \<times> 'a retry_event list" where
  "retry_run delay operation opts w = retry_loop delay operation opts 1 None w"

definition retry ::
  "(int \<Rightarrow> 'w \<Rightarrow> 'w) \<Rightarrow> ('w \<Rightarrow> (error + 'a) \<times> 'w) \<Rightarrow> retry_options \<Rightarrow>
   'w \<Rightarrow> (error + 'a) \<times> 'w" where
  "retry delay operation opts w = fst (retry_run delay operation opts w)"

text \<open>
  The world in which call number \<open>n + 1\<close> of the operation is made, counting from the call
  of loop variable \<open>attempt\<close> made in \<open>w\<close>, when each call before it is followed by the
  delay of its attempt.  It applies the operation and \<open>delay\<close> directly, and is what the
  properties of \<open>retry\<close> are stated against.
\<close>

fun call_world ::
  "(int \<Rightarrow> 'w \<Rightarrow> 'w) \<Rightarrow> ('w \<Rightarrow> (error + 'a) \<times> 'w) \<Rightarrow> retry_options \<Rightarrow>
   int \<Rightarrow> nat \<Rightarrow> 'w \<Rightarrow> 'w" where
  "call_world delay operation opts attempt 0 w = w"
| "call_world delay operation opts attempt (Suc n) w =
     call_world delay operation opts (attempt + 1) n
       (delay (retryDelay opts attempt) (snd (operation w)))"

definition retryableErrors :: "string list" where
  "retryableErrors =
     [''TimeoutError'', ''ProtocolError'', ''NetworkError'', ''ECONNRESET'', ''ENOTFOUND'',
      ''ECONNREFUSED'', ''Failed to extract details'']"

definition shouldRetryError :: "error \<Rightarrow> bool" where
  "shouldRetryError e =
     list_ex (\<lambda>errorType. js_includes (name e) errorType \<or> js_includes (message e) errorType)
       retryableErrors"

text \<open>Two operations on a counter, for evaluation: one always times out, one succeeds on its
  third call.\<close>

definition always_fails :: "nat \<Rightarrow> (error + nat) \<times> nat" where
  "always_fails w = (Inl (Error ''TimeoutError'' ''Navigation timeout''), Suc w)"

definition fails_twice :: "nat \<Rightarrow> (error + nat) \<times> nat" where
  "fails_twice w =
     (if w < 2 then Inl (Error ''TimeoutError'' ''Navigation timeout'') else Inr 42, Suc w)"

definition no_wait :: "int \<Rightarrow> nat \<Rightarrow> nat" where
  "no_wait ms w = w"

definition opts0 :: retry_options where
  "opts0 = default_retry_options\<lparr>retryCondition := shouldRetryError\<rparr>"

section \<open>database/sysco-models.js: the product table and its upsert\<close>

text \<open>
  The values a property of a product object holds: a string, \<open>null\<close>, or \<open>undefined\<close> (the
  property is absent).  Numbers and nested objects are not modelled.
\<close>

datatype jsval = Undefined | Null | Str string

text \<open>
  A product, by the column names of \<open>sysco_products\<close> that \<open>upsertProduct\<close> destructures from
  \<open>productData\<close>.  The same record holds a JavaScript object (\<open>jsval product\<close>) and the text
  columns of a table row (\<open>string option product\<close>, \<open>None\<close> being SQL \<open>NULL\<close>).
\<close>

record 'v product =
  sku :: 'v
  product_name :: 'v
  brand_name :: 'v
  packaging_information :: 'v
  packaging_size :: 'v
  picture_url :: 'v
  description :: 'v
  category :: 'v
  product_url :: 'v
  unit_size :: 'v
  case_size :: 'v
  weight :: 'v
  upc :: 'v
  gtin :: 'v
  supplier :: 'v
  manufacturer :: 'v
  specifications :: 'v
  nutrition_info :: 'v
  ingredients :: 'v
  allergens :: 'v
  storage_instructions :: 'v
  shelf_life :: 'v
  location_zip :: 'v
  structured_data :: 'v

text \<open>
  A row of the table \<open>createTable\<close> declares: the text columns and the scraping metadata.
  \<open>CURRENT_TIMESTAMP\<close> is a natural number (the clock's reading).  The surrogate key \<open>id\<close> is
  left out: nothing in the repository reads it, and no constraint but its own mentions it.
  The constraints of the table are \<open>product_name TEXT NOT NULL\<close>, \<open>sku TEXT UNIQUE\<close> and
  \<open>UNIQUE(sku, location_zip)\<close>; they are written into \<open>upsertProduct\<close> below.
\<close>

record row = "string option product" +
  scrape_session_id :: "string option"
  scraped_date :: nat
  updated_date :: nat

text \<open>A statement parameter: \<open>null\<close> and \<open>undefined\<close> are both stored as \<open>NULL\<close>.\<close>

fun bind_param :: "jsval \<Rightarrow> string option" where
  "bind_param Undefined = None"
| "bind_param Null = None"
| "bind_param (Str s) = Some s"

text \<open>A destructuring default (\<open>location_zip = '97209'\<close>) replaces \<open>undefined\<close> only.\<close>

fun with_default :: "string \<Rightarrow> jsval \<Rightarrow> jsval" where
  "with_default d Undefined = Str d"
| "with_default d v = v"

text \<open>
  \<open>typeof x === 'object' ? JSON.stringify(x) : x\<close>: of the values modelled only \<open>null\<close> has
  type \<open>'object'\<close>, and \<open>JSON.stringify(null)\<close> is the string \<open>null\<close>.
\<close>

fun json_param :: "jsval \<Rightarrow> jsval" where
  "json_param Null = Str ''null''"
| "json_param v = v"

text \<open>
  The two uniqueness constraints of \<open>createTable\<close>, as tests on a stored row against the
  \<open>sku\<close> and \<open>location_zip\<close> of the row to insert: the table constraint
  \<open>UNIQUE(sku, location_zip)\<close> and the column constraint \<open>sku TEXT UNIQUE\<close>.  In SQLite a
  \<open>NULL\<close> never conflicts with anything.
\<close>

definition conflicts_sku_location_zip :: "string option \<Rightarrow> string option \<Rightarrow> row \<Rightarrow> bool" where
  "conflicts_sku_location_zip s z r = (s \<noteq> None \<and> z \<noteq> None \<and> sku r = s \<and> location_zip r = z)"

definition conflicts_sku :: "string option \<Rightarrow> row \<Rightarrow> bool" where
  "conflicts_sku s r = (s \<noteq> None \<and> sku r = s)"

text \<open>The \<open>DO UPDATE SET\<close> list of the statement, applied to the stored row \<open>r\<close>;
  \<open>excluded\<close> is the row that would have been inserted and \<open>now\<close> is \<open>CURRENT_TIMESTAMP\<close>.\<close>

definition do_update :: "nat \<Rightarrow> row \<Rightarrow> row \<Rightarrow> row" where
  "do_update now excluded r =
     r\<lparr>product_name := product_name excluded,
       brand_name := brand_name excluded,
       packaging_information := packaging_information excluded,
       packaging_size := packaging_size excluded,
       picture_url := picture_url excluded,
       description := description excluded,
       category := category excluded,
       product_url := product_url excluded,
       unit_size := unit_size excluded,
       case_size := case_size excluded,
       weight := weight excluded,
       upc := upc excluded,
       gtin := gtin excluded,
       supplier := supplier excluded,
       manufacturer := manufacturer excluded,
       specifications := specifications excluded,
       nutrition_info := nutrition_info excluded,
       ingredients := ingredients excluded,
       allergens := allergens excluded,
       storage_instructions := storage_instructions excluded,
       shelf_life := shelf_life excluded,
       updated_date := now,
       scrape_session_id := scrape_session_id excluded,
       structured_data := structured_data excluded\<rparr>"

text \<open>The row of the \<open>VALUES\<close> clause: the 25 bound parameters, and the two dates from their
  column defaults.\<close>

definition values_row :: "nat \<Rightarrow> jsval product \<Rightarrow> string option \<Rightarrow> row" where
  "values_row now productData sessionId =
     \<lparr>sku = bind_param (sku productData),
        product_name = bind_param (product_name productData),
        brand_name = bind_param (brand_name productData),
        packaging_information = bind_param (packaging_information productData),
        packaging_size = bind_param (packaging_size productData),
        picture_url = bind_param (picture_url productData),
        description = bind_param (description productData),
        category = bind_param (category productData),
        product_url = bind_param (product_url productData),
        unit_size = bind_param (unit_size productData),
        case_size = bind_param (case_size productData),
        weight = bind_param (weight productData),
        upc = bind_param (upc productData),
        gtin = bind_param (gtin productData),
        supplier = bind_param (supplier productData),
        manufacturer = bind_param (manufacturer productData),
        specifications = bind_param (json_param (specifications productData)),
        nutrition_info = bind_param (json_param (nutrition_info productData)),
        ingredients = bind_param (ingredients productData),
        allergens = bind_param (allergens productData),
        storage_instructions = bind_param (storage_instructions productData),
        shelf_life = bind_param (shelf_life productData),
        location_zip = bind_param (with_default ''97209'' (location_zip productData)),
        structured_data = bind_param (json_param (structured_data productData)),
        scrape_session_id = sessionId,
        scraped_date = now,
        updated_date = now\<rparr>"

text \<open>
  \<open>upsertProduct(productData, sessionId)\<close> on the table, at clock reading \<open>now\<close>.  The promise
  rejects (\<open>Inl\<close>) with the error of the statement and the table is unchanged; it resolves
  (\<open>Inr\<close>) with the new table (the resolved object \<open>{isNew, id, changes}\<close> is not modelled: no
  caller reads it).  SQLite checks \<open>NOT NULL\<close> first, then the constraint named by
  \<open>ON CONFLICT\<close> (a conflict there runs \<open>DO UPDATE\<close> on the conflicting row), then the
  remaining uniqueness constraint, whose violation aborts the statement.
\<close>

definition upsertProduct ::
  "nat \<Rightarrow> jsval product \<Rightarrow> string option \<Rightarrow> row list \<Rightarrow> error + row list" where
  "upsertProduct now productData sessionId table =
     (let excluded = values_row now productData sessionId in
      if product_name excluded = None then
        Inl (Error ''Error''
          ''SQLITE_CONSTRAINT: NOT NULL constraint failed: sysco_products.product_name'')
      else if list_ex (conflicts_sku_location_zip (sku excluded) (location_zip excluded)) table then
        Inr (map (\<lambda>r. if conflicts_sku_location_zip (sku excluded) (location_zip excluded) r
                       then do_update now excluded r else r) table)
      else if list_ex (conflicts_sku (sku excluded)) table then
        Inl (Error ''Error'' ''SQLITE_CONSTRAINT: UNIQUE constraint failed: sysco_products.sku'')
      else Inr (table @ [excluded]))"

text \<open>
  \<open>batchUpsertProducts(productsArray, sessionId)\<close>.  The loop runs over the array from index
  \<open>i\<close>; \<open>clock i\<close> is the clock's reading when the statement of index \<open>i\<close> runs.  Besides the
  counters it returns the numbers \<open>i + 1\<close> that \<open>logger.error\<close> reports
  (\<open>Error saving product ${i + 1}\<close>), in order.
\<close>

record batch_result =
  saved :: nat
  errors :: nat

fun batch_loop ::
  "(nat \<Rightarrow> nat) \<Rightarrow> nat \<Rightarrow> jsval product list \<Rightarrow> string option \<Rightarrow>
   batch_result \<times> nat list \<times> row list \<Rightarrow> batch_result \<times> nat list \<times> row list" where
  "batch_loop clock i [] sessionId st = st"
| "batch_loop clock i (product # rest) sessionId (res, logged, table) =
     (case upsertProduct (clock i) product sessionId table of
        Inr table' \<Rightarrow>
          batch_loop clock (i + 1) rest sessionId (res\<lparr>saved := saved res + 1\<rparr>, logged, table')
      | Inl e \<Rightarrow>
          batch_loop clock (i + 1) rest sessionId
            (res\<lparr>errors := errors res + 1\<rparr>, logged @ [i + 1], table))"

definition batchUpsertProducts ::
  "(nat \<Rightarrow> nat) \<Rightarrow> jsval product list \<Rightarrow> string option \<Rightarrow> row list \<Rightarrow>
   batch_result \<times> nat list \<times> row list" where
  "batchUpsertProducts clock productsArray sessionId table =
     (if productsArray = [] then (\<lparr>saved = 0, errors = 0\<rparr>, [], table)
      else batch_loop clock 0 productsArray sessionId (\<lparr>saved = 0, errors = 0\<rparr>, [], table))"

text \<open>A product has a row in the table: some row carries its \<open>sku\<close> and \<open>location_zip\<close> as
  the statement binds them.\<close>

definition stored :: "row list \<Rightarrow> jsval product \<Rightarrow> bool" where
  "stored table p =
     list_ex (\<lambda>r. sku r = bind_param (sku p) \<and>
                   location_zip r = bind_param (with_default ''97209'' (location_zip p))) table"

text \<open>The rows of the table under a key.\<close>

definition rows_for :: "string \<Rightarrow> string \<Rightarrow> row list \<Rightarrow> row list" where
  "rows_for s z table = filter (\<lambda>r. sku r = Some s \<and> location_zip r = Some z) table"

text \<open>A product object for evaluation: the given \<open>sku\<close>, \<open>location_zip\<close> and \<open>product_name\<close>,
  every other property absent.\<close>

definition mk_product :: "jsval \<Rightarrow> jsval \<Rightarrow> jsval \<Rightarrow> jsval product" where
  "mk_product s z n =
     \<lparr>sku = s, product_name = n, brand_name = Undefined,
      packaging_information = Undefined, packaging_size = Undefined,
      picture_url = Undefined, description = Undefined, category = Undefined,
      product_url = Undefined, unit_size = Undefined, case_size = Undefined,
      weight = Undefined, upc = Undefined, gtin = Undefined, supplier = Undefined,
      manufacturer = Undefined, specifications = Undefined, nutrition_info = Undefined,
      ingredients = Undefined, allergens = Undefined, storage_instructions = Undefined,
      shelf_life = Undefined, location_zip = z, structured_data = Undefined\<rparr>"


text \<open>The product of SKU 7229038 as extracted at a given location under a given name.\<close>

definition product_at :: "string \<Rightarrow> string \<Rightarrow> jsval product" where
  "product_at z n = mk_product (Str ''7229038'') (Str z) (Str n)"

section \<open>config/sysco-config.js\<close>

text \<open>
  The environment variables the configuration reads.  A numeric variable holds what
  \<open>parseInt\<close> makes of it: \<open>None\<close> when it is unset or not a number (\<open>NaN\<close>).
\<close>

record env =
  SYSCO_LOCATION_ZIP :: "string option"
  MAX_PAGES_PER_CATEGORY :: "int option"
  MAX_PRODUCTS_PER_CATEGORY :: "int option"
  DELAY_PAGE_LOAD :: "int option"
  DELAY_MODAL_HANDLING :: "int option"
  DELAY_BETWEEN_PRODUCTS :: "int option"
  DELAY_BETWEEN_CATEGORIES :: "int option"
  DELAY_AFTER_CATEGORY_CLICK :: "int option"
  DELAY_PAGINATION :: "int option"
  DELAY_PRODUCT_DETAILS :: "int option"
  MAX_RETRIES :: "int option"
  RETRY_BASE_DELAY :: "int option"

text \<open>\<open>parseInt(x) || d\<close>: \<open>NaN\<close> and \<open>0\<close> are falsy.  \<open>x || d\<close> on strings: \<open>undefined\<close> and the
  empty string are falsy.\<close>

fun int_or :: "int option \<Rightarrow> int \<Rightarrow> int" where
  "int_or None d = d"
| "int_or (Some n) d = (if n = 0 then d else n)"

fun string_or :: "string option \<Rightarrow> string \<Rightarrow> string" where
  "string_or None d = d"
| "string_or (Some s) d = (if s = [] then d else s)"

text \<open>The selectors of \<open>scraping.productDetails\<close> (each field is prefixed with \<open>sel_\<close>: half
  of the names are column names too).\<close>

record selectors =
  sel_brandName :: string
  sel_packagingInformation :: string
  sel_packagingSize :: string
  sel_sku :: string
  sel_pictureUrl :: string
  sel_description :: string
  sel_category :: string
  sel_ingredients :: string
  sel_gtin :: string
  sel_upc :: string
  sel_caseSize :: string
  sel_weight :: string
  sel_storageInstructions :: string
  sel_locationZip :: string
  sel_readMoreButton :: string
  sel_productName :: string

text \<open>
  \<open>syscoConfig.scraping\<close>, flattened: \<open>location.zipCode\<close>, the two limits, the categories and
  their selectors, \<open>productDetails\<close>, \<open>productListing\<close>, \<open>urls.discover\<close>, \<open>delays\<close> and
  \<open>retry\<close>.  (\<open>auth\<close>, \<open>pagination\<close> and \<open>urls.home\<close> are read only by code that is not
  modelled.)
\<close>

record scraping =
  zipCode :: string
  maxPagesPerCategory :: int
  maxProductsPerCategory :: int
  categories :: "string list"
  categorySelectors :: "(string \<times> string) list"
  productDetails :: selectors
  productLinks :: string
  productUrlFilter :: string
  discover :: string
  pageLoad :: int
  modalHandling :: int
  betweenProducts :: int
  betweenCategories :: int
  afterCategoryClick :: int
  pagination :: int
  productDetailsDelay :: int
  retry_maxRetries :: int
  retry_baseDelay :: int

definition syscoConfig :: "env \<Rightarrow> scraping" where
  \<open>syscoConfig e =
     \<lparr>zipCode = string_or (SYSCO_LOCATION_ZIP e) ''97209'',
      maxPagesPerCategory = int_or (MAX_PAGES_PER_CATEGORY e) 10,
      maxProductsPerCategory = int_or (MAX_PRODUCTS_PER_CATEGORY e) 500,
      categories = [''Produce'', ''Meat & Seafood'', ''Bakery & Breads'', ''Dairy & Eggs'',
                    ''Canned & Dry'', ''Frozen Foods'', ''Beverages''],
      categorySelectors =
        [(''Produce'', ''[data-id="lbl_category_app.dashboard.produce.title"]''),
         (''Meat & Seafood'', ''[data-id="lbl_category_app.dashboard.meatseafood.title"]''),
         (''Bakery & Breads'', ''[data-id="lbl_category_app.dashboard.bakerybread.title"]''),
         (''Dairy & Eggs'', ''[data-id="lbl_category_app.dashboard.dairyeggs.title"]''),
         (''Canned & Dry'', ''[data-id="lbl_category_app.dashboard.canneddry.title"]''),
         (''Frozen Foods'', ''[data-id="lbl_category_app.dashboard.frozenfoods.title"]''),
         (''Beverages'', ''[data-id="lbl_category_app.dashboard.beverages.title"]'')],
      productDetails =
        \<lparr>sel_brandName = ''[data-id="product_brand_link"]'',
         sel_packagingInformation = ''[data-id="product_packaging_text"]'',
         sel_packagingSize = ''[data-id="pack_size"]'',
         sel_sku = ''[data-id="product_id"]'',
         sel_pictureUrl = ''[data-id="main-product-img-v2"]'',
         sel_description = ''[data-id="product_description_section"]'',
         sel_category = ''[data-id="breadcrumb_category_level1"]'',
         sel_ingredients = ''[data-id="ingredients_text"]'',
         sel_gtin = ''[data-id="gtin_text"]'',
         sel_upc = ''[data-id="manufacturer_upc_text"]'',
         sel_caseSize = ''[data-id="case_dimensions_text"]'',
         sel_weight = ''[data-id="net_weight_text"]'',
         sel_storageInstructions = ''[data-id="storage_location_text"]'',
         sel_locationZip = ''div.zipcode'',
         sel_readMoreButton = ''[data-id="ellipsis-read-more-button"]'',
         sel_productName = ''[data-testid="product-title"]''\<rparr>,
      productLinks = ''a[href*="/product-details/"]'',
      productUrlFilter = ''/product/'',
      discover = ''https://shop.sysco.com/app/discover'',
      pageLoad = int_or (DELAY_PAGE_LOAD e) 3000,
      modalHandling = int_or (DELAY_MODAL_HANDLING e) 2000,
      betweenProducts = int_or (DELAY_BETWEEN_PRODUCTS e) 500,
      betweenCategories = int_or (DELAY_BETWEEN_CATEGORIES e) 2000,
      afterCategoryClick = int_or (DELAY_AFTER_CATEGORY_CLICK e) 8000,
      pagination = int_or (DELAY_PAGINATION e) 5000,
      productDetailsDelay = int_or (DELAY_PRODUCT_DETAILS e) 1000,
      retry_maxRetries = int_or (MAX_RETRIES e) 3,
      retry_baseDelay = int_or (RETRY_BASE_DELAY e) 2000\<rparr>\<close>

text \<open>The environment with no variable set.\<close>

definition no_env :: env where
  "no_env =
     \<lparr>SYSCO_LOCATION_ZIP = None, MAX_PAGES_PER_CATEGORY = None, MAX_PRODUCTS_PER_CATEGORY = None,
      DELAY_PAGE_LOAD = None, DELAY_MODAL_HANDLING = None, DELAY_BETWEEN_PRODUCTS = None,
      DELAY_BETWEEN_CATEGORIES = None, DELAY_AFTER_CATEGORY_CLICK = None,
      DELAY_PAGINATION = None, DELAY_PRODUCT_DETAILS = None, MAX_RETRIES = None,
      RETRY_BASE_DELAY = None\<rparr>"

section \<open>The page, as the in-page scripts see it\<close>

text \<open>
  An element: its text, its attributes (\<open>getAttribute\<close>) and, for an anchor, its resolved
  \<open>href\<close> property.  A document answers \<open>querySelectorAll\<close> in document order and knows its
  \<open>window.location.href\<close>.
\<close>

record element =
  textContent :: string
  attributes :: "(string \<times> string) list"
  href :: string

record dom =
  querySelectorAll :: "string \<Rightarrow> element list"
  location_href :: string

definition querySelector :: "dom \<Rightarrow> string \<Rightarrow> element option" where
  "querySelector d selector = (case querySelectorAll d selector of [] \<Rightarrow> None | el # _ \<Rightarrow> Some el)"

text \<open>
  \<open>String.prototype.trim\<close>.  The characters of a HOL string stand for the code units below
  256, so the white space \<open>trim\<close> strips is here the space, the five control characters
  U+0009 to U+000D, and the no-break space U+00A0; the white space above U+00FF has no
  character in the model.
\<close>

definition is_space :: "char \<Rightarrow> bool" where
  "is_space c =
     (c \<in> set [CHR '' '', CHR 0x09, CHR 0x0A, CHR 0x0B, CHR 0x0C, CHR 0x0D, CHR 0xA0])"

definition trim :: "string \<Rightarrow> string" where
  "trim s = rev (dropWhile is_space (rev (dropWhile is_space s)))"

text \<open>\<open>a || b\<close> on strings: the empty string is falsy.\<close>

definition js_or :: "string \<Rightarrow> string \<Rightarrow> string" where
  "js_or a b = (if a = [] then b else a)"

text \<open>\<open>[...new Set(links)]\<close>: the first occurrence of each value, in order.\<close>

fun dedupe_from :: "'a list \<Rightarrow> 'a list \<Rightarrow> 'a list" where
  "dedupe_from seen [] = []"
| "dedupe_from seen (x # xs) =
     (if x \<in> set seen then dedupe_from seen xs else x # dedupe_from (seen @ [x]) xs)"

definition dedupe :: "'a list \<Rightarrow> 'a list" where
  "dedupe xs = dedupe_from [] xs"

section \<open>scrapers/sysco-paginated.js\<close>

subsection \<open>The page automation driver\<close>

text \<open>
  The driver is a parameter: a record of the operations the scraper calls on the global
  \<open>page\<close>, each a function of the state \<open>'b\<close> of the browser and of the machine around it.
  An operation that can reject returns \<open>Inl\<close> the error.
  \<^item> \<open>goto\<close>: \<open>page.goto(url, ...)\<close>;
  \<^item> \<open>delay\<close>: what the state becomes while \<open>delay(ms)\<close> waits;
  \<^item> \<open>document\<close>: the document a read-only \<open>page.evaluate\<close> or \<open>page.$\<close> sees;
  \<^item> \<open>click\<close>: \<open>click()\<close> on the handle \<open>page.$(selector)\<close> returned;
  \<^item> \<open>url\<close>: \<open>page.url()\<close>;
  \<^item> \<open>scrollToTop\<close>: the script \<open>window.scrollTo(0, 0)\<close>;
  \<^item> \<open>clickCategory\<close>: the in-page script of \<open>scrapeCategory\<close>, which clicks the category's
    element (or its nearest clickable ancestor) and returns whether the element was found;
  \<^item> \<open>clickNextPage\<close>: the in-page script of \<open>navigateToNextPage\<close>, which clicks an enabled
    next-page control and returns \<open>success\<close>;
  \<^item> \<open>waitForNavigation\<close>, \<open>waitForSelector\<close>: the two waits whose time-out is caught;
  \<^item> \<open>current_timestamp\<close>: the clock SQLite reads;
  \<^item> \<open>mkdirSync\<close>: \<open>exportToCsv\<close> making sure the output directory exists (\<open>existsSync\<close>, and
    \<open>mkdirSync\<close> if it does not), which throws when the directory cannot be made.
\<close>

record 'b driver =
  goto :: "string \<Rightarrow> 'b \<Rightarrow> (error + unit) \<times> 'b"
  delay :: "int \<Rightarrow> 'b \<Rightarrow> 'b"
  document :: "'b \<Rightarrow> error + dom"
  click :: "string \<Rightarrow> 'b \<Rightarrow> (error + unit) \<times> 'b"
  url :: "'b \<Rightarrow> string"
  scrollToTop :: "'b \<Rightarrow> (error + unit) \<times> 'b"
  clickCategory :: "string \<Rightarrow> 'b \<Rightarrow> (error + bool) \<times> 'b"
  clickNextPage :: "'b \<Rightarrow> (error + bool) \<times> 'b"
  waitForNavigation :: "'b \<Rightarrow> 'b"
  waitForSelector :: "string \<Rightarrow> 'b \<Rightarrow> 'b"
  current_timestamp :: "'b \<Rightarrow> nat"
  mkdirSync :: "'b \<Rightarrow> error + unit"

subsection \<open>extractProductDetails\<close>

definition getTextBySelector :: "dom \<Rightarrow> string \<Rightarrow> string" where
  "getTextBySelector d selector =
     (case querySelector d selector of
        None \<Rightarrow> []
      | Some el \<Rightarrow> js_or (trim (textContent el)) [])"

definition getAttributeBySelector :: "dom \<Rightarrow> string \<Rightarrow> string \<Rightarrow> string" where
  "getAttributeBySelector d selector attribute =
     (case querySelector d selector of
        None \<Rightarrow> []
      | Some el \<Rightarrow>
          (case map_of (attributes el) attribute of None \<Rightarrow> [] | Some v \<Rightarrow> js_or v []))"

text \<open>
  The script \<open>extractProductDetails\<close> evaluates in the page.  The object it returns has the
  sixteen properties below; the other columns are absent from it.  (Its \<open>catch\<close>, which
  returns \<open>null\<close>, is not reached: none of the calls modelled throws.)
\<close>

definition locationZip :: "selectors \<Rightarrow> dom \<Rightarrow> string" where
  "locationZip sels d =
     (case querySelector d (sel_locationZip sels) of
        None \<Rightarrow> ''97209''
      | Some zipcodeElement \<Rightarrow> js_or (trim (textContent zipcodeElement)) ''97209'')"

definition extract_script :: "selectors \<Rightarrow> dom \<Rightarrow> jsval product" where
  "extract_script sels d =
     \<lparr>sku = Str (js_or (getTextBySelector d (sel_sku sels)) []),
      product_name = Str (js_or (getTextBySelector d (sel_productName sels)) ''Product''),
      brand_name = Str (js_or (getTextBySelector d (sel_brandName sels)) ''Sysco''),
      packaging_information =
        Str (js_or (getTextBySelector d (sel_packagingInformation sels)) ''Standard packaging''),
      packaging_size = Str (js_or (getTextBySelector d (sel_packagingSize sels)) []),
      picture_url = Str (js_or (getAttributeBySelector d (sel_pictureUrl sels) ''src'') []),
      description =
        Str (js_or (getTextBySelector d (sel_description sels))
               ''Premium quality product from Sysco''),
      category = Str (js_or (getTextBySelector d (sel_category sels)) []),
      product_url = Str (location_href d),
      unit_size = Undefined,
      case_size = Str (js_or (getTextBySelector d (sel_caseSize sels)) []),
      weight = Str (js_or (getTextBySelector d (sel_weight sels)) []),
      upc = Str (js_or (getTextBySelector d (sel_upc sels)) []),
      gtin = Str (js_or (getTextBySelector d (sel_gtin sels)) []),
      supplier = Undefined,
      manufacturer = Undefined,
      specifications = Undefined,
      nutrition_info = Undefined,
      ingredients = Str (js_or (getTextBySelector d (sel_ingredients sels)) []),
      allergens = Undefined,
      storage_instructions = Str (js_or (getTextBySelector d (sel_storageInstructions sels)) []),
      shelf_life = Undefined,
      location_zip = Str (locationZip sels d),
      structured_data = Undefined\<rparr>"

text \<open>The operation \<open>extractProductDetails\<close> hands to \<open>retry\<close>: navigate, wait, click the
  \<open>Read More\<close> button if there is one, run the script, and throw unless the \<open>sku\<close> is
  non-empty.\<close>

definition extract_attempt ::
  "'b driver \<Rightarrow> scraping \<Rightarrow> string \<Rightarrow> 'b \<Rightarrow> (error + jsval product) \<times> 'b" where
  "extract_attempt drv cfg productUrl b =
     (case goto drv productUrl b of
        (Inl e, b1) \<Rightarrow> (Inl e, b1)
      | (Inr u, b1) \<Rightarrow>
          (let b2 = delay drv (productDetailsDelay cfg) b1 in
           case document drv b2 of
             Inl e \<Rightarrow> (Inl e, b2)
           | Inr d \<Rightarrow>
               (case (case querySelector d (sel_readMoreButton (productDetails cfg)) of
                        None \<Rightarrow> (Inr (), b2)
                      | Some readMoreButton \<Rightarrow>
                          (case click drv (sel_readMoreButton (productDetails cfg)) b2 of
                             (Inl e, b3) \<Rightarrow> (Inl e, b3)
                           | (Inr u, b3) \<Rightarrow> (Inr (), delay drv (productDetailsDelay cfg) b3))) of
                  (Inl e, b4) \<Rightarrow> (Inl e, b4)
                | (Inr u, b4) \<Rightarrow>
                    (case document drv b4 of
                       Inl e \<Rightarrow> (Inl e, b4)
                     | Inr d' \<Rightarrow>
                         (let details = extract_script (productDetails cfg) d' in
                          if sku details \<noteq> Str [] then (Inr details, b4)
                          else (Inl (Error ''Error''
                                  (''Failed to extract details from: '' @ productUrl)), b4))))))"

definition extractProductDetails ::
  "'b driver \<Rightarrow> scraping \<Rightarrow> string \<Rightarrow> 'b \<Rightarrow> (error + jsval product) \<times> 'b" where
  "extractProductDetails drv cfg productUrl b =
     retry (delay drv) (extract_attempt drv cfg productUrl)
       \<lparr>maxRetries = retry_maxRetries cfg, baseDelay = retry_baseDelay cfg,
        exponentialBackoff = True, retryCondition = shouldRetryError\<rparr> b"

subsection \<open>The state of a run\<close>

text \<open>
  The log lines the properties below read, each with the values it interpolates:
  \<^item> \<open>LogPage\<close>: \<open>=== ${categoryName} - PAGE ${currentPage} ===\<close> (\<open>scrapeCategory\<close>);
  \<^item> \<open>LogLookingForNextPage\<close>: \<open>Looking for next page button...\<close> (\<open>navigateToNextPage\<close>);
  \<^item> \<open>LogExporting\<close>: \<open>Exporting ${categoryProducts.length} products from ${category} to CSV...\<close>;
  \<^item> \<open>LogCsvDone\<close>: \<open>CSV export completed successfully\<close>;
  \<^item> \<open>LogCsvError\<close>: \<open>CSV export error for ${category}:\<close> with the error's message;
  \<^item> \<open>LogCategoryError\<close>: \<open>Error scraping category ${category}:\<close> with the error's message.
  The other calls of the logger are left out.
\<close>

datatype log =
    LogPage string int
  | LogLookingForNextPage
  | LogExporting nat string
  | LogCsvDone
  | LogCsvError string string
  | LogCategoryError string string

text \<open>The state of a run: the browser, the table \<open>sysco_products\<close>, the exports written (each
  the rows it selected) and the log.\<close>

record 'b world =
  browser :: 'b
  db :: "row list"
  exports :: "row list list"
  logs :: "log list"

definition logger :: "log \<Rightarrow> 'b world \<Rightarrow> 'b world" where
  "logger l w = w\<lparr>logs := logs w @ [l]\<rparr>"

text \<open>
  \<open>exportToCsv()\<close> with its default arguments: it makes sure the output directory exists,
  selects every row, rejects when there is none, and writes the file otherwise.  (The file's
  name and columns are not modelled, nor an error of the query or of \<open>stringify\<close>.)
\<close>

definition exportToCsv :: "'b driver \<Rightarrow> 'b world \<Rightarrow> (error + unit) \<times> 'b world" where
  "exportToCsv drv w =
     (case mkdirSync drv (browser w) of
        Inl e \<Rightarrow> (Inl e, w)
      | Inr u \<Rightarrow>
          if db w = [] then (Inl (Error ''Error'' ''No products found to export''), w)
          else (Inr (), w\<lparr>exports := exports w @ [db w]\<rparr>))"

subsection \<open>scrapeProductsFromPage\<close>

text \<open>The links the in-page script of \<open>scrapeProductsFromPage\<close> returns.\<close>

definition product_links :: "scraping \<Rightarrow> dom \<Rightarrow> string list" where
  "product_links cfg d =
     dedupe (filter (\<lambda>h. js_includes h (productUrlFilter cfg))
               (map href (querySelectorAll d (productLinks cfg))))"

text \<open>
  The \<open>for\<close> loop over \<open>productLinks\<close>, entered with the links from index \<open>i\<close> on and the
  current \<open>categoryProducts\<close>.  \<open>extractProductDetails\<close> returns an object or throws, so the
  \<open>else\<close> of \<open>if (productDetails)\<close> is not reached.  A caught error skips the delay.
\<close>

fun links_loop ::
  "'b driver \<Rightarrow> scraping \<Rightarrow> string list \<Rightarrow> jsval product list \<Rightarrow> 'b \<Rightarrow>
   jsval product list \<times> 'b" where
  "links_loop drv cfg [] categoryProducts b = (categoryProducts, b)"
| "links_loop drv cfg (link # rest) categoryProducts b =
     (if int (length categoryProducts) < maxProductsPerCategory cfg then
        (case extractProductDetails drv cfg link b of
           (Inr details, b1) \<Rightarrow>
             links_loop drv cfg rest (categoryProducts @ [details])
               (delay drv (betweenProducts cfg) b1)
         | (Inl e, b1) \<Rightarrow> links_loop drv cfg rest categoryProducts b1)
      else (categoryProducts, b))"

text \<open>
  \<open>scrapeProductsFromPage(categoryName, pageNumber)\<close>.  A rejected \<open>page.evaluate\<close> is not
  caught.  \<open>batchUpsertProducts\<close> does not throw in this model, so the \<open>catch\<close> around it is
  not reached; all statements of one batch read the same clock.
\<close>

definition scrapeProductsFromPage ::
  "'b driver \<Rightarrow> scraping \<Rightarrow> string \<Rightarrow> int \<Rightarrow> 'b world \<Rightarrow>
   (error + jsval product list) \<times> 'b world" where
  "scrapeProductsFromPage drv cfg categoryName pageNumber w =
     (let b1 = delay drv (pageLoad cfg) (browser w) in
      case document drv b1 of
        Inl e \<Rightarrow> (Inl e, w\<lparr>browser := b1\<rparr>)
      | Inr d \<Rightarrow>
          (let links = product_links cfg d in
           if links = [] then (Inr [], w\<lparr>browser := b1\<rparr>)
           else
             (let (categoryProducts, b2) = links_loop drv cfg links [] b1 in
              if categoryProducts \<noteq> [] then
                (Inr categoryProducts,
                 w\<lparr>browser := b2,
                   db := snd (snd (batchUpsertProducts (\<lambda>i. current_timestamp drv b2)
                                     categoryProducts None (db w)))\<rparr>)
              else (Inr categoryProducts, w\<lparr>browser := b2\<rparr>))))"

subsection \<open>navigateToNextPage\<close>

definition navigateToNextPage ::
  "'b driver \<Rightarrow> scraping \<Rightarrow> string \<Rightarrow> 'b world \<Rightarrow> (error + bool) \<times> 'b world" where
  \<open>navigateToNextPage drv cfg categoryPageUrl w =
     (let w0 = logger LogLookingForNextPage w in
      case goto drv categoryPageUrl (browser w0) of
        (Inl e, b1) \<Rightarrow> (Inl e, w0\<lparr>browser := b1\<rparr>)
      | (Inr u, b1) \<Rightarrow>
          (case clickNextPage drv
                  (delay drv (pagination cfg) (delay drv (modalHandling cfg) b1)) of
             (Inl e, b2) \<Rightarrow> (Inl e, w0\<lparr>browser := b2\<rparr>)
           | (Inr success, b2) \<Rightarrow>
               if success then
                 (Inr True,
                  w0\<lparr>browser := waitForSelector drv ''[href*="/app/product-details/"]''
                                   (delay drv (pagination cfg) b2)\<rparr>)
               else (Inr False, w0\<lparr>browser := b2\<rparr>)))\<close>

subsection \<open>returnToCategoryListPage\<close>

definition categoriesVisible :: "dom \<Rightarrow> bool" where
  \<open>categoriesVisible d = (querySelectorAll d ''[data-id*="lbl_category_app.dashboard"]'' \<noteq> [])\<close>

text \<open>The \<open>try\<close> block of \<open>returnToCategoryListPage\<close>: \<open>Inr True\<close> is its early \<open>return\<close>
  (already on the discover page, categories visible).\<close>

definition already_on_discover :: "'b driver \<Rightarrow> scraping \<Rightarrow> 'b \<Rightarrow> (error + bool) \<times> 'b" where
  "already_on_discover drv cfg b =
     (if js_includes (url drv b) ''/app/discover'' then
        (case scrollToTop drv b of
           (Inl e, b1) \<Rightarrow> (Inl e, b1)
         | (Inr u, b1) \<Rightarrow>
             (let b2 = delay drv (modalHandling cfg) b1 in
              case document drv b2 of
                Inl e \<Rightarrow> (Inl e, b2)
              | Inr d \<Rightarrow> (Inr (categoriesVisible d), b2)))
      else (Inr False, b))"

definition return_try :: "'b driver \<Rightarrow> scraping \<Rightarrow> 'b \<Rightarrow> (error + unit) \<times> 'b" where
  "return_try drv cfg b =
     (case already_on_discover drv cfg b of
        (Inl e, b') \<Rightarrow> (Inl e, b')
      | (Inr done, b') \<Rightarrow>
          if done then (Inr (), b')
          else
            (case goto drv (discover cfg) b' of
               (Inl e, b3) \<Rightarrow> (Inl e, b3)
             | (Inr u, b3) \<Rightarrow>
                 (let b4 = delay drv (pageLoad cfg) b3 in
                  case document drv b4 of
                    Inl e \<Rightarrow> (Inl e, b4)
                  | Inr d \<Rightarrow>
                      if categoriesVisible d then (Inr (), b4)
                      else
                        (case scrollToTop drv b4 of
                           (Inl e, b5) \<Rightarrow> (Inl e, b5)
                         | (Inr u, b5) \<Rightarrow>
                             (let b6 = delay drv (modalHandling cfg) b5 in
                              case document drv b6 of
                                Inl e \<Rightarrow> (Inl e, b6)
                              | Inr d' \<Rightarrow> (Inr (), b6))))))"

definition returnToCategoryListPage ::
  "'b driver \<Rightarrow> scraping \<Rightarrow> 'b \<Rightarrow> (error + unit) \<times> 'b" where
  "returnToCategoryListPage drv cfg b =
     (case return_try drv cfg b of
        (Inr u, b') \<Rightarrow> (Inr (), b')
      | (Inl e, b') \<Rightarrow>
          (case goto drv (discover cfg) b' of
             (Inr u, b1) \<Rightarrow> (Inr (), delay drv (pagination cfg) b1)
           | (Inl refreshError, b1) \<Rightarrow>
               (Inl (Error ''Error'' ''Could not return to category list page''), b1)))"

subsection \<open>scrapeCategory\<close>

text \<open>
  The \<open>while\<close> loop of \<open>scrapeCategory\<close>, entered with \<open>currentPage\<close>, \<open>categoryPageUrl\<close> and
  \<open>allCategoryProducts\<close>.  It returns the products and the final \<open>currentPage\<close>, or the error
  that \<open>scrapeProductsFromPage\<close> or \<open>navigateToNextPage\<close> threw.
\<close>

function pages_loop ::
  "'b driver \<Rightarrow> scraping \<Rightarrow> string \<Rightarrow> int \<Rightarrow> string \<Rightarrow> jsval product list \<Rightarrow> 'b world \<Rightarrow>
   (error + jsval product list \<times> int) \<times> 'b world" where
  "pages_loop drv cfg categoryName currentPage categoryPageUrl allCategoryProducts w =
     (if currentPage \<le> maxPagesPerCategory cfg \<and>
         int (length allCategoryProducts) < maxProductsPerCategory cfg then
        (case scrapeProductsFromPage drv cfg categoryName currentPage
                (logger (LogPage categoryName currentPage) w) of
           (Inl e, w1) \<Rightarrow> (Inl e, w1)
         | (Inr pageProducts, w1) \<Rightarrow>
             if currentPage \<ge> maxPagesPerCategory cfg then
               (Inr (allCategoryProducts @ pageProducts, currentPage), w1)
             else
               (case navigateToNextPage drv cfg categoryPageUrl w1 of
                  (Inl e, w2) \<Rightarrow> (Inl e, w2)
                | (Inr hasNextPage, w2) \<Rightarrow>
                    if \<not> hasNextPage then
                      (Inr (allCategoryProducts @ pageProducts, currentPage), w2)
                    else
                      pages_loop drv cfg categoryName (currentPage + 1) (url drv (browser w2))
                        (allCategoryProducts @ pageProducts) w2))
      else (Inr (allCategoryProducts, currentPage), w))"
  by pat_completeness auto
termination
  by (relation "measure (\<lambda>(drv, cfg, categoryName, currentPage, categoryPageUrl,
                          allCategoryProducts, w).
                   nat (maxPagesPerCategory cfg + 1 - currentPage))") auto

declare pages_loop.simps [simp del]

text \<open>\<open>scrapeCategory(categoryName)\<close>.  An unknown category and a category whose element is
  not found return the empty list.\<close>

definition scrapeCategory ::
  "'b driver \<Rightarrow> scraping \<Rightarrow> string \<Rightarrow> 'b world \<Rightarrow> (error + jsval product list) \<times> 'b world" where
  "scrapeCategory drv cfg categoryName w =
     (let w1 = w\<lparr>browser := delay drv (betweenCategories cfg) (browser w)\<rparr> in
      case map_of (categorySelectors cfg) categoryName of
        None \<Rightarrow> (Inr [], w1)
      | Some selector \<Rightarrow>
          if selector = [] then (Inr [], w1)
          else
            (case clickCategory drv selector (browser w1) of
               (Inl e, b2) \<Rightarrow> (Inl e, w1\<lparr>browser := b2\<rparr>)
             | (Inr categoryClicked, b2) \<Rightarrow>
                 if \<not> categoryClicked then (Inr [], w1\<lparr>browser := b2\<rparr>)
                 else
                   (let b3 = waitForNavigation drv (delay drv (afterCategoryClick cfg) b2) in
                    case pages_loop drv cfg categoryName 1 (url drv b3) [] (w1\<lparr>browser := b3\<rparr>) of
                      (Inl e, w4) \<Rightarrow> (Inl e, w4)
                    | (Inr (allCategoryProducts, currentPage), w4) \<Rightarrow>
                        (case returnToCategoryListPage drv cfg (browser w4) of
                           (Inl e, b5) \<Rightarrow> (Inl e, w4\<lparr>browser := b5\<rparr>)
                         | (Inr u, b5) \<Rightarrow> (Inr allCategoryProducts, w4\<lparr>browser := b5\<rparr>)))))"

subsection \<open>scrapeAllCategories\<close>

text \<open>The export step of the loop body: \<open>if (categoryProducts.length > 0)\<close> with its
  \<open>try\<close>/\<open>catch\<close> around \<open>exportToCsv\<close>.\<close>

definition export_category ::
  "'b driver \<Rightarrow> string \<Rightarrow> jsval product list \<Rightarrow> 'b world \<Rightarrow> 'b world" where
  "export_category drv categoryName categoryProducts w =
     (if length categoryProducts > 0 then
        (case exportToCsv drv (logger (LogExporting (length categoryProducts) categoryName) w) of
           (Inr u, w') \<Rightarrow> logger LogCsvDone w'
         | (Inl csvError, w') \<Rightarrow> logger (LogCsvError categoryName (message csvError)) w')
      else w)"

text \<open>The \<open>for\<close> loop of \<open>scrapeAllCategories\<close> over the categories still to visit, with the
  current \<open>allProducts\<close>.\<close>

fun categories_loop ::
  "'b driver \<Rightarrow> scraping \<Rightarrow> string list \<Rightarrow> jsval product list \<Rightarrow> 'b world \<Rightarrow>
   jsval product list \<times> 'b world" where
  "categories_loop drv cfg [] allProducts w = (allProducts, w)"
| "categories_loop drv cfg (categoryName # rest) allProducts w =
     (case scrapeCategory drv cfg categoryName w of
        (Inr categoryProducts, w1) \<Rightarrow>
          (let w2 = export_category drv categoryName categoryProducts w1 in
           categories_loop drv cfg rest (allProducts @ categoryProducts)
             (w2\<lparr>browser := delay drv (betweenCategories cfg) (browser w2)\<rparr>))
      | (Inl e, w1) \<Rightarrow>
          categories_loop drv cfg rest allProducts
            (logger (LogCategoryError categoryName (message e)) w1))"

definition scrapeAllCategories ::
  "'b driver \<Rightarrow> scraping \<Rightarrow> 'b world \<Rightarrow> jsval product list \<times> 'b world" where
  "scrapeAllCategories drv cfg w = categories_loop drv cfg (categories cfg) [] w"

section \<open>A small site, for evaluation\<close>

text \<open>
  A driver over a site given as data.  The state of the browser is the URL it is at.
  Clicking the category whose element has selector \<open>sel\<close> leads to the listing
  \<open>/c/sel\<close>; the next page of a listing is its URL with a \<open>+\<close> appended, and a next-page
  control is always there.  \<open>links_at\<close> gives, for the URL of a listing, the \<open>href\<close>s of the
  anchors the link selector matches.  A page whose URL contains \<open>/product/\<close> shows its own
  URL as the SKU and no other field.  \<open>missing\<close> lists the selectors of categories whose
  element is not on the page, \<open>broken\<close> those whose click script is rejected; \<open>read_only\<close>
  says that the output directory cannot be made.
\<close>

record site =
  links_at :: "(string \<times> string list) list"
  missing :: "string list"
  broken :: "string list"
  read_only :: bool

definition anchor :: "string \<Rightarrow> element" where
  "anchor h = \<lparr>textContent = [], attributes = [(''href'', h)], href = h\<rparr>"

definition site_document :: "site \<Rightarrow> string \<Rightarrow> dom" where
  \<open>site_document s here =
     \<lparr>querySelectorAll =
        (\<lambda>selector.
           if selector = ''a[href*="/product-details/"]'' then
             (case map_of (links_at s) here of None \<Rightarrow> [] | Some hs \<Rightarrow> map anchor hs)
           else if selector = ''[data-id="product_id"]'' \<and> js_includes here ''/product/'' then
             [\<lparr>textContent = here, attributes = [], href = []\<rparr>]
           else []),
      location_href = here\<rparr>\<close>

definition site_driver :: "site \<Rightarrow> string driver" where
  "site_driver s =
     \<lparr>goto = (\<lambda>u b. (Inr (), u)),
      delay = (\<lambda>ms b. b),
      document = (\<lambda>b. Inr (site_document s b)),
      click = (\<lambda>selector b. (Inr (), b)),
      url = (\<lambda>b. b),
      scrollToTop = (\<lambda>b. (Inr (), b)),
      clickCategory =
        (\<lambda>selector b.
           if selector \<in> set (broken s) then
             (Inl (Error ''Error'' ''Execution context was destroyed''), b)
           else if selector \<in> set (missing s) then (Inr False, b)
           else (Inr True, ''/c/'' @ selector)),
      clickNextPage = (\<lambda>b. (Inr True, b @ ''+'')),
      waitForNavigation = (\<lambda>b. b),
      waitForSelector = (\<lambda>selector b. b),
      current_timestamp = (\<lambda>b. 0),
      mkdirSync =
        (\<lambda>b. if read_only s
              then Inl (Error ''Error'' ''EACCES: permission denied, mkdir'')
              else Inr ())\<rparr>"

text \<open>A document with no element at all.\<close>

definition empty_document :: dom where
  "empty_document = \<lparr>querySelectorAll = (\<lambda>selector. []), location_href = ''about:blank''\<rparr>"

text \<open>The state a run starts in, at the discover page, with a given table.\<close>

definition start :: "row list \<Rightarrow> string world" where
  "start t = \<lparr>browser = ''https://shop.sysco.com/app/discover'', db = t, exports = [], logs = []\<rparr>"

text \<open>The listing pages of the category Produce on the sites below.\<close>

definition produce1 :: string where
  \<open>produce1 = ''/c/[data-id="lbl_category_app.dashboard.produce.title"]''\<close>

definition produce2 :: string where
  "produce2 = produce1 @ ''+''"

definition produce3 :: string where
  "produce3 = produce2 @ ''+''"

text \<open>A site whose Produce listing has one product on its first page, two on its second and
  one on its third.\<close>

definition orchard :: site where
  "orchard =
     \<lparr>links_at = [(produce1, [''/product/1'']),
                  (produce2, [''/product/2'', ''/product/3'']),
                  (produce3, [''/product/4''])],
      missing = [], broken = [], read_only = False\<rparr>"

text \<open>A site on which no category's element is found.\<close>

definition bare :: site where
  \<open>bare =
     \<lparr>links_at = [],
      missing = map snd (categorySelectors (syscoConfig no_env)),
      broken = [], read_only = False\<rparr>\<close>

text \<open>A site with one product under Produce and one under Bakery & Breads, on which the click
  on Meat & Seafood is rejected; and the same site with an output directory that cannot be
  made.\<close>

definition market :: site where
  \<open>market =
     \<lparr>links_at = [(produce1, [''/product/1'']),
                  (''/c/[data-id="lbl_category_app.dashboard.bakerybread.title"]'', [''/product/9''])],
      missing = [],
      broken = [''[data-id="lbl_category_app.dashboard.meatseafood.title"]''],
      read_only = False\<rparr>\<close>

definition market_read_only :: site where
  "market_read_only = market\<lparr>read_only := True\<rparr>"

text \<open>A listing whose only anchor leads to a URL without \<open>/product/\<close>.\<close>

definition stale :: site where
  "stale =
     \<lparr>links_at = [(produce1, [''https://shop.sysco.com/app/product-details/7229038''])],
      missing = [], broken = [], read_only = False\<rparr>"

text \<open>Configurations: the limits set through the environment.\<close>

definition limits :: "int option \<Rightarrow> int option \<Rightarrow> scraping" where
  "limits pages products =
     syscoConfig (no_env\<lparr>MAX_PAGES_PER_CATEGORY := pages, MAX_PRODUCTS_PER_CATEGORY := products\<rparr>)"

text \<open>The record the script of \<open>extractProductDetails\<close> returns on the page at \<open>u\<close> of such a
  site (the product pages do not depend on the site's listings), and its row when it is
  first stored.\<close>

definition site_product :: "string \<Rightarrow> jsval product" where
  "site_product u = extract_script (productDetails (syscoConfig no_env)) (site_document bare u)"

definition site_row :: "string \<Rightarrow> row" where
  "site_row u = values_row 0 (site_product u) None"

section \<open>Observations on a run\<close>

text \<open>The number of pages a log reports as scraped.\<close>

definition is_LogPage :: "log \<Rightarrow> bool" where
  "is_LogPage l = (case l of LogPage c n \<Rightarrow> True | _ \<Rightarrow> False)"

definition pages_logged :: "log list \<Rightarrow> nat" where
  "pages_logged ls = length (filter is_LogPage ls)"

text \<open>
  From state \<open>w\<close> to state \<open>w'\<close> nothing is lost: every product with a row in the table still
  has one, and the exports and the log have only been appended to.
\<close>

definition grows :: "'b world \<Rightarrow> 'b world \<Rightarrow> bool" where
  "grows w w' =
     ((\<forall>q. stored (db w) q \<longrightarrow> stored (db w') q) \<and>
      (\<exists>more. exports w' = exports w @ more) \<and>
      (\<exists>more. logs w' = logs w @ more))"

section \<open>Properties of retry\<close>


lemma retry_success_last:
  "retry_loop d operation opts attempt le w = (r, evs) \<Longrightarrow>
   evs = pre @ Attempt (Inr v) # post \<Longrightarrow> post = [] \<and> fst r = Inr v"
proof (induction d operation opts attempt le w arbitrary: r evs pre rule: retry_loop.induct)
  case (1 sleep operation opts attempt lastError w)
  show ?case
  proof (cases "attempt \<le> maxRetries opts + 1")
    case False
    with "1.prems" show ?thesis
      by (subst (asm) retry_loop.simps) (auto split: option.splits)
  next
    case True
    obtain out w' where op: "operation w = (out, w')" by (cases "operation w")
    show ?thesis
    proof (cases out)
      case (Inr res)
      with True op "1.prems" show ?thesis
        by (subst (asm) retry_loop.simps) (auto simp: Cons_eq_append_conv)
    next
      case (Inl e)
      show ?thesis
      proof (cases "\<not> retryCondition opts e \<or> attempt \<ge> maxRetries opts + 1")
        case True
        with \<open>attempt \<le> maxRetries opts + 1\<close> op Inl "1.prems" show ?thesis
          by (subst (asm) retry_loop.simps) (auto simp: Cons_eq_append_conv)
      next
        case False
        define rd where "rd = retryDelay opts attempt"
        obtain r' evs' where rec: "retry_loop sleep operation opts (attempt + 1) (Some e) (sleep rd w') = (r', evs')"
          by (cases "retry_loop sleep operation opts (attempt + 1) (Some e) (sleep rd w')")
        have unfold: "retry_loop sleep operation opts attempt lastError w = (r', Attempt (Inl e) # Delay rd # evs')"
          using \<open>attempt \<le> maxRetries opts + 1\<close> op Inl False rec
          by (subst retry_loop.simps) (simp add: rd_def Let_def)
        with "1.prems" have r: "r = r'" and evs: "evs = Attempt (Inl e) # Delay rd # evs'" by auto
        from evs "1.prems"(2) have "Attempt (Inl e) # Delay rd # evs' = pre @ Attempt (Inr v) # post"
          by simp
        then obtain pre' where "evs' = pre' @ Attempt (Inr v) # post"
          by (cases pre; cases "tl pre") auto
        from "1.IH"[OF \<open>attempt \<le> maxRetries opts + 1\<close> op[symmetric] Inl False refl rec[unfolded rd_def] this]
        show ?thesis using r by simp
      qed
    qed
  qed
qed

lemma retry_loop_step:
  assumes "operation w = (Inl e, w')" "retryCondition opts e" "attempt < maxRetries opts + 1"
    and "retry_loop sleep operation opts (attempt + 1) (Some e) (sleep (retryDelay opts attempt) w') = (r, evs)"
  shows "retry_loop sleep operation opts attempt le w = (r, Attempt (Inl e) # Delay (retryDelay opts attempt) # evs)"
  using assms by (subst retry_loop.simps) (simp add: Let_def)

lemma retry_loop_last:
  assumes "operation w = (Inl e, w')" "attempt = maxRetries opts + 1"
  shows "retry_loop sleep operation opts attempt le w = ((Inl e, w'), [Attempt (Inl e)])"
  using assms by (subst retry_loop.simps) simp

lemma retry_loop_success:
  assumes "operation w = (Inr v, w')" "attempt \<le> maxRetries opts + 1"
  shows "retry_loop sleep operation opts attempt le w = ((Inr v, w'), [Attempt (Inr v)])"
  using assms by (subst retry_loop.simps) simp

text \<open>
  Where the loop stops.  If the calls before call \<open>k + 1\<close> fail with errors the condition
  accepts, and call \<open>k + 1\<close> succeeds, or fails with an error the condition refuses, or is
  the last call allowed, then the loop returns what that call of the operation returns,
  world included, and has made exactly the calls up to it.
\<close>

lemma retry_loop_stops_at:
  assumes "attempt + int k \<le> maxRetries opts + 1"
    and "\<forall>j<k. \<exists>e. fst (operation (call_world sleep operation opts attempt j w)) = Inl e \<and>
                   retryCondition opts e"
    and "(\<exists>v. fst (operation (call_world sleep operation opts attempt k w)) = Inr v) \<or>
         (\<exists>e. fst (operation (call_world sleep operation opts attempt k w)) = Inl e \<and>
              \<not> retryCondition opts e) \<or>
         attempt + int k = maxRetries opts + 1"
  shows "fst (retry_loop sleep operation opts attempt le w)
           = operation (call_world sleep operation opts attempt k w)
         \<and> filter is_Attempt (snd (retry_loop sleep operation opts attempt le w))
           = map (\<lambda>j. Attempt (fst (operation (call_world sleep operation opts attempt j w))))
               [0..<Suc k]"
  using assms
proof (induction k arbitrary: attempt le w)
  case 0
  obtain x w' where op: "operation w = (x, w')" by (cases "operation w")
  show ?case
  proof (cases x)
    case (Inr v)
    with op "0.prems"(1) show ?thesis by (simp add: retry_loop_success)
  next
    case (Inl e)
    with op "0.prems" have "\<not> retryCondition opts e \<or> attempt \<ge> maxRetries opts + 1"
      by auto
    with op Inl "0.prems"(1) show ?thesis
      by (subst retry_loop.simps, subst (2) retry_loop.simps) auto
  qed
next
  case (Suc k)
  from Suc.prems(2) obtain e where e: "fst (operation w) = Inl e" "retryCondition opts e"
    by fastforce
  then obtain w' where op: "operation w = (Inl e, w')" by (cases "operation w") auto
  define w2 where "w2 = sleep (retryDelay opts attempt) w'"
  have cw: "call_world sleep operation opts attempt (Suc j) w
              = call_world sleep operation opts (attempt + 1) j w2" for j
    by (simp add: op w2_def)
  have 1: "attempt + 1 + int k \<le> maxRetries opts + 1" using Suc.prems(1) by simp
  have 2: "\<forall>j<k. \<exists>e. fst (operation (call_world sleep operation opts (attempt + 1) j w2)) = Inl e \<and>
                   retryCondition opts e"
  proof (intro allI impI)
    fix j assume "j < k"
    then have "Suc j < Suc k" by simp
    with Suc.prems(2) show "\<exists>e. fst (operation (call_world sleep operation opts (attempt + 1) j w2)) = Inl e \<and>
                   retryCondition opts e"
      unfolding cw[symmetric] by blast
  qed
  have 3: "(\<exists>v. fst (operation (call_world sleep operation opts (attempt + 1) k w2)) = Inr v) \<or>
         (\<exists>e. fst (operation (call_world sleep operation opts (attempt + 1) k w2)) = Inl e \<and>
              \<not> retryCondition opts e) \<or>
         attempt + 1 + int k = maxRetries opts + 1"
    using Suc.prems(3) unfolding cw by simp
  obtain r evs where rec: "retry_loop sleep operation opts (attempt + 1) (Some e) w2 = (r, evs)"
    by (cases "retry_loop sleep operation opts (attempt + 1) (Some e) w2")
  from Suc.IH[OF 1 2 3, of "Some e"] rec
  have r: "r = operation (call_world sleep operation opts (attempt + 1) k w2)"
    and evs: "filter is_Attempt evs
           = map (\<lambda>j. Attempt (fst (operation (call_world sleep operation opts (attempt + 1) j w2))))
               [0..<Suc k]"
    by simp_all
  have lt: "attempt < maxRetries opts + 1" using Suc.prems(1) by simp
  have step: "retry_loop sleep operation opts attempt le w
                = (r, Attempt (Inl e) # Delay (retryDelay opts attempt) # evs)"
    using retry_loop_step[OF op e(2) lt rec[unfolded w2_def]] .
  have "map (\<lambda>j. Attempt (fst (operation (call_world sleep operation opts attempt j w))))
               [0..<Suc (Suc k)]
        = Attempt (Inl e) #
          map (\<lambda>j. Attempt (fst (operation (call_world sleep operation opts (attempt + 1) j w2))))
               [0..<Suc k]"
    unfolding map_upt_Suc[of _ "Suc k"] cw by (simp add: e(1))
  with step r evs show ?case unfolding cw by simp
qed

text \<open>
  Claim C2 (retry bound and propagation).  With \<open>maxRetries = 3\<close>, when the operation fails in
  every world with an error \<open>retryCondition\<close> accepts, \<open>retry\<close> applies it four times, each
  time to the world the delay after the call before leaves, and throws the error of the
  fourth application in the world that application leaves; between the four calls lie the
  three back-off delays and nothing else.  For any options: when the calls before call
  \<open>k + 1\<close> fail with accepted errors and call \<open>k + 1\<close>, one of the \<open>maxRetries + 1\<close> allowed,
  succeeds, \<open>retry\<close> returns the value of that call in the world that call leaves, having
  made exactly the calls up to it; and a call that succeeds is the last thing \<open>retry\<close> does.
\<close>

theorem retry_bound_and_propagation:
  "(maxRetries opts = 3 \<and> (\<forall>w. \<exists>e. fst (operation w) = Inl e \<and> retryCondition opts e) \<longrightarrow>
      (\<exists>e1 e2 e3 e4 w1 w2 w3 w4.
          operation w = (Inl e1, w1)
        \<and> operation (sleep (retryDelay opts 1) w1) = (Inl e2, w2)
        \<and> operation (sleep (retryDelay opts 2) w2) = (Inl e3, w3)
        \<and> operation (sleep (retryDelay opts 3) w3) = (Inl e4, w4)
        \<and> retry sleep operation opts w = (Inl e4, w4)
        \<and> retry_run sleep operation opts w =
           ((Inl e4, w4),
            [Attempt (Inl e1), Delay (retryDelay opts 1), Attempt (Inl e2), Delay (retryDelay opts 2),
             Attempt (Inl e3), Delay (retryDelay opts 3), Attempt (Inl e4)])))
   \<and> (\<forall>k v. int k \<le> maxRetries opts
          \<and> (\<forall>j<k. \<exists>e. fst (operation (call_world sleep operation opts 1 j w)) = Inl e \<and>
                        retryCondition opts e)
          \<and> fst (operation (call_world sleep operation opts 1 k w)) = Inr v \<longrightarrow>
            retry sleep operation opts w
              = (Inr v, snd (operation (call_world sleep operation opts 1 k w)))
          \<and> filter is_Attempt (snd (retry_run sleep operation opts w))
              = map (\<lambda>j. Attempt (fst (operation (call_world sleep operation opts 1 j w))))
                  [0..<Suc k])
   \<and> (\<forall>pre v post. snd (retry_run sleep operation opts w) = pre @ Attempt (Inr v) # post \<longrightarrow>
         post = [] \<and> fst (retry sleep operation opts w) = Inr v)"
proof (intro conjI impI allI)
  assume a: "maxRetries opts = 3 \<and> (\<forall>w. \<exists>e. fst (operation w) = Inl e \<and> retryCondition opts e)"
  then have m: "maxRetries opts = 3" by simp
  have ex: "\<exists>e w'. operation w = (Inl e, w') \<and> retryCondition opts e" for w
    using a by (cases "operation w") (metis fst_conv)
  obtain e1 w1 where 1: "operation w = (Inl e1, w1)" "retryCondition opts e1"
    using ex by blast
  obtain e2 w2 where 2: "operation (sleep (retryDelay opts 1) w1) = (Inl e2, w2)"
      "retryCondition opts e2"
    using ex by blast
  obtain e3 w3 where 3: "operation (sleep (retryDelay opts 2) w2) = (Inl e3, w3)"
      "retryCondition opts e3"
    using ex by blast
  obtain e4 w4 where 4: "operation (sleep (retryDelay opts 3) w3) = (Inl e4, w4)"
      "retryCondition opts e4"
    using ex by blast
  have s4: "retry_loop sleep operation opts 4 (Some e3) (sleep (retryDelay opts 3) w3)
              = ((Inl e4, w4), [Attempt (Inl e4)])"
    using 4 m by (intro retry_loop_last) simp_all
  have s3: "retry_loop sleep operation opts 3 (Some e2) (sleep (retryDelay opts 2) w2)
              = ((Inl e4, w4), [Attempt (Inl e3), Delay (retryDelay opts 3), Attempt (Inl e4)])"
    using 3 m s4 by (intro retry_loop_step) simp_all
  have s2: "retry_loop sleep operation opts 2 (Some e1) (sleep (retryDelay opts 1) w1)
              = ((Inl e4, w4), [Attempt (Inl e2), Delay (retryDelay opts 2),
                   Attempt (Inl e3), Delay (retryDelay opts 3), Attempt (Inl e4)])"
    using 2 m s3 by (intro retry_loop_step) simp_all
  have s1: "retry_loop sleep operation opts 1 None w
              = ((Inl e4, w4), [Attempt (Inl e1), Delay (retryDelay opts 1), Attempt (Inl e2),
                   Delay (retryDelay opts 2), Attempt (Inl e3), Delay (retryDelay opts 3),
                   Attempt (Inl e4)])"
    using 1 m s2 by (intro retry_loop_step) simp_all
  show "\<exists>e1 e2 e3 e4 w1 w2 w3 w4.
          operation w = (Inl e1, w1)
        \<and> operation (sleep (retryDelay opts 1) w1) = (Inl e2, w2)
        \<and> operation (sleep (retryDelay opts 2) w2) = (Inl e3, w3)
        \<and> operation (sleep (retryDelay opts 3) w3) = (Inl e4, w4)
        \<and> retry sleep operation opts w = (Inl e4, w4)
        \<and> retry_run sleep operation opts w =
           ((Inl e4, w4),
            [Attempt (Inl e1), Delay (retryDelay opts 1), Attempt (Inl e2), Delay (retryDelay opts 2),
             Attempt (Inl e3), Delay (retryDelay opts 3), Attempt (Inl e4)])"
    using 1(1) 2(1) 3(1) 4(1) s1
    by (intro exI[of _ e1] exI[of _ e2] exI[of _ e3] exI[of _ e4]
              exI[of _ w1] exI[of _ w2] exI[of _ w3] exI[of _ w4])
       (simp add: retry_def retry_run_def)
next
  fix k v
  assume a: "int k \<le> maxRetries opts
          \<and> (\<forall>j<k. \<exists>e. fst (operation (call_world sleep operation opts 1 j w)) = Inl e \<and>
                        retryCondition opts e)
          \<and> fst (operation (call_world sleep operation opts 1 k w)) = Inr v"
  from a have b: "1 + int k \<le> maxRetries opts + 1" by simp
  from a have c: "\<forall>j<k. \<exists>e. fst (operation (call_world sleep operation opts 1 j w)) = Inl e \<and>
                        retryCondition opts e" by simp
  from a have d: "fst (operation (call_world sleep operation opts 1 k w)) = Inr v" by simp
  from d have d': "(\<exists>v. fst (operation (call_world sleep operation opts 1 k w)) = Inr v) \<or>
         (\<exists>e. fst (operation (call_world sleep operation opts 1 k w)) = Inl e \<and>
              \<not> retryCondition opts e) \<or>
         1 + int k = maxRetries opts + 1" by blast
  from retry_loop_stops_at[OF b c d', of None]
  have r: "fst (retry_loop sleep operation opts 1 None w)
             = operation (call_world sleep operation opts 1 k w)"
    and f: "filter is_Attempt (snd (retry_loop sleep operation opts 1 None w))
           = map (\<lambda>j. Attempt (fst (operation (call_world sleep operation opts 1 j w))))
               [0..<Suc k]"
    by simp_all
  from r d show "retry sleep operation opts w
              = (Inr v, snd (operation (call_world sleep operation opts 1 k w)))"
    by (simp add: retry_def retry_run_def prod_eq_iff)
  from f show "filter is_Attempt (snd (retry_run sleep operation opts w))
              = map (\<lambda>j. Attempt (fst (operation (call_world sleep operation opts 1 j w))))
                  [0..<Suc k]"
    by (simp add: retry_run_def)
next
  fix pre v post
  assume a: "snd (retry_run sleep operation opts w) = pre @ Attempt (Inr v) # post"
  obtain r evs where r: "retry_loop sleep operation opts 1 None w = (r, evs)"
    by (cases "retry_loop sleep operation opts 1 None w")
  with a have "evs = pre @ Attempt (Inr v) # post" by (simp add: retry_run_def)
  from retry_success_last[OF r this] r
  show "post = []" and "fst (retry sleep operation opts w) = Inr v"
    by (simp_all add: retry_def retry_run_def)
qed

text \<open>The theorem at an operation on a counter that always times out, which is left at 4,
  and at one that succeeds on its third call, which is left at 3.\<close>

theorem retry_bound_and_propagation_witness:
  "maxRetries opts0 = 3
   \<and> (\<forall>w. \<exists>e. fst (always_fails w) = Inl e \<and> retryCondition opts0 e)
   \<and> retry no_wait always_fails opts0 0 = (Inl (Error ''TimeoutError'' ''Navigation timeout''), 4)
   \<and> int (Suc (Suc 0)) \<le> maxRetries opts0
   \<and> (\<exists>e. fst (fails_twice (call_world no_wait fails_twice opts0 1 0 0)) = Inl e \<and>
           retryCondition opts0 e)
   \<and> (\<exists>e. fst (fails_twice (call_world no_wait fails_twice opts0 1 (Suc 0) 0)) = Inl e \<and>
           retryCondition opts0 e)
   \<and> fst (fails_twice (call_world no_wait fails_twice opts0 1 (Suc (Suc 0)) 0)) = Inr 42
   \<and> retry no_wait fails_twice opts0 0 = (Inr 42, 3)
   \<and> filter is_Attempt (snd (retry_run no_wait fails_twice opts0 0))
        = [Attempt (Inl (Error ''TimeoutError'' ''Navigation timeout'')),
           Attempt (Inl (Error ''TimeoutError'' ''Navigation timeout'')), Attempt (Inr 42)]
   \<and> snd (retry_run no_wait fails_twice opts0 0) =
        [Attempt (Inl (Error ''TimeoutError'' ''Navigation timeout'')), Delay 1000,
         Attempt (Inl (Error ''TimeoutError'' ''Navigation timeout'')), Delay 2000] @ Attempt (Inr 42) # []"
proof -
  have sr: "shouldRetryError (Error ''TimeoutError'' ''Navigation timeout'')"
    by (simp add: shouldRetryError_def retryableErrors_def)
  have m: "maxRetries opts0 = 3"
    by (simp add: opts0_def default_retry_options_def)
  have rc: "retryCondition opts0 = shouldRetryError"
    by (simp add: opts0_def default_retry_options_def)
  have f: "\<forall>w. \<exists>e. fst (always_fails w) = Inl e \<and> retryCondition opts0 e"
    by (simp add: always_fails_def rc sr)
  have c0: "call_world no_wait fails_twice opts0 1 0 0 = 0"
    and c1: "call_world no_wait fails_twice opts0 1 (Suc 0) 0 = 1"
    and c2: "call_world no_wait fails_twice opts0 1 (Suc (Suc 0)) 0 = 2"
    by (simp_all add: no_wait_def fails_twice_def)
  have h0: "\<exists>e. fst (fails_twice (call_world no_wait fails_twice opts0 1 0 0)) = Inl e \<and>
           retryCondition opts0 e"
    unfolding c0 by (simp add: fails_twice_def rc sr)
  have h1: "\<exists>e. fst (fails_twice (call_world no_wait fails_twice opts0 1 (Suc 0) 0)) = Inl e \<and>
           retryCondition opts0 e"
    unfolding c1 by (simp add: fails_twice_def rc sr)
  have h2: "fst (fails_twice (call_world no_wait fails_twice opts0 1 (Suc (Suc 0)) 0)) = Inr 42"
    unfolding c2 by (simp add: fails_twice_def)
  have hall: "\<forall>j<Suc (Suc 0). \<exists>e. fst (fails_twice (call_world no_wait fails_twice opts0 1 j 0)) = Inl e \<and>
           retryCondition opts0 e"
    using h0 h1 by (simp add: less_Suc_eq)
  have k: "int (Suc (Suc 0)) \<le> maxRetries opts0" by (simp add: m)
  have s: "snd (retry_run no_wait fails_twice opts0 0) =
        [Attempt (Inl (Error ''TimeoutError'' ''Navigation timeout'')), Delay 1000,
         Attempt (Inl (Error ''TimeoutError'' ''Navigation timeout'')), Delay 2000] @ Attempt (Inr 42) # []"
    by (simp add: retry_run_def retry_loop.simps opts0_def default_retry_options_def
        fails_twice_def no_wait_def shouldRetryError_def retryableErrors_def retryDelay_def)
  note t1 = retry_bound_and_propagation[where opts = opts0 and operation = always_fails and sleep = no_wait
      and w = "0::nat"]
  from t1 m f obtain e1 e2 e3 e4 w1 w2 w3 w4 where
      a1: "always_fails 0 = (Inl e1, w1)"
      and a2: "always_fails (no_wait (retryDelay opts0 1) w1) = (Inl e2, w2)"
      and a3: "always_fails (no_wait (retryDelay opts0 2) w2) = (Inl e3, w3)"
      and a4: "always_fails (no_wait (retryDelay opts0 3) w3) = (Inl e4, w4)"
      and ar: "retry no_wait always_fails opts0 0 = (Inl e4, w4)"
    by blast
  from a1 have "w1 = 1" by (simp add: always_fails_def)
  with a2 have "w2 = 2" by (simp add: always_fails_def no_wait_def)
  with a3 have "w3 = 3" by (simp add: always_fails_def no_wait_def)
  with a4 have "w4 = 4" "e4 = Error ''TimeoutError'' ''Navigation timeout''"
    by (simp_all add: always_fails_def no_wait_def)
  with ar have A: "retry no_wait always_fails opts0 0
                     = (Inl (Error ''TimeoutError'' ''Navigation timeout''), 4)" by simp
  note t2 = retry_bound_and_propagation[where opts = opts0 and operation = fails_twice and sleep = no_wait
      and w = "0::nat"]
  from t2 k hall h2
  have B: "retry no_wait fails_twice opts0 0
              = (Inr 42, snd (fails_twice (call_world no_wait fails_twice opts0 1 (Suc (Suc 0)) 0)))"
    and C: "filter is_Attempt (snd (retry_run no_wait fails_twice opts0 0))
              = map (\<lambda>j. Attempt (fst (fails_twice (call_world no_wait fails_twice opts0 1 j 0))))
                  [0..<Suc (Suc (Suc 0))]"
    by blast+
  from B have B': "retry no_wait fails_twice opts0 0 = (Inr 42, 3)"
    unfolding c2 by (simp add: fails_twice_def)
  from C have C': "filter is_Attempt (snd (retry_run no_wait fails_twice opts0 0))
        = [Attempt (Inl (Error ''TimeoutError'' ''Navigation timeout'')),
           Attempt (Inl (Error ''TimeoutError'' ''Navigation timeout'')), Attempt (Inr 42)]"
    by (simp add: upt_rec[of 0] upt_rec[of "Suc 0"] upt_rec[of "Suc (Suc 0)"] fails_twice_def
             no_wait_def del: upt_Suc)
  from m f A k h0 h1 h2 B' C' s show ?thesis by blast
qed
section \<open>Properties of the product table\<close>


lemma upsert_insert:
  assumes "product_name (values_row tm p sid) \<noteq> None"
    and "\<not> list_ex (conflicts_sku (sku (values_row tm p sid))) table"
  shows "upsertProduct tm p sid table = Inr (table @ [values_row tm p sid])"
proof -
  have "\<not> list_ex (conflicts_sku_location_zip (sku (values_row tm p sid)) (location_zip (values_row tm p sid))) table"
    using assms(2) by (auto simp: list_ex_iff conflicts_sku_def conflicts_sku_location_zip_def)
  with assms show ?thesis by (simp add: upsertProduct_def Let_def)
qed

lemma upsert_update:
  assumes "product_name (values_row tm p sid) \<noteq> None"
    and "list_ex (conflicts_sku_location_zip (sku (values_row tm p sid)) (location_zip (values_row tm p sid))) table"
  shows "upsertProduct tm p sid table =
     Inr (map (\<lambda>r. if conflicts_sku_location_zip (sku (values_row tm p sid)) (location_zip (values_row tm p sid)) r
                       then do_update tm (values_row tm p sid) r else r) table)"
  using assms by (simp add: upsertProduct_def Let_def)

lemma sku_do_update [simp]: "sku (do_update tm e r) = sku r"
  by (simp add: do_update_def)
lemma zip_do_update [simp]: "location_zip (do_update tm e r) = location_zip r"
  by (simp add: do_update_def)
lemma scraped_do_update [simp]: "scraped_date (do_update tm e r) = scraped_date r"
  by (simp add: do_update_def)

lemma sku_values_row [simp]: "sku (values_row tm p sid) = bind_param (sku p)"
  by (simp add: values_row_def)
lemma zip_values_row [simp]: "location_zip (values_row tm p sid) = bind_param (with_default ''97209'' (location_zip p))"
  by (simp add: values_row_def)
lemma name_values_row [simp]: "product_name (values_row tm p sid) = bind_param (product_name p)"
  by (simp add: values_row_def)

text \<open>\<open>DO UPDATE\<close> on the row a first call inserted leaves the values of the second call,
  but for \<open>sku\<close>, \<open>location_zip\<close> and \<open>scraped_date\<close>.\<close>
lemma do_update_values:
  "do_update t2 (values_row t2 p2 sid2) (values_row t1 p1 sid1) =
     (values_row t2 p2 sid2)\<lparr>sku := bind_param (sku p1),
        location_zip := bind_param (with_default ''97209'' (location_zip p1)),
        scraped_date := t1\<rparr>"
  by (simp add: do_update_def values_row_def)

lemma upsertProduct_twice:
  assumes s1: "bind_param (sku r1) = Some s" and s2: "bind_param (sku r2) = Some s"
    and z1: "bind_param (with_default ''97209'' (location_zip r1)) = Some z"
    and z2: "bind_param (with_default ''97209'' (location_zip r2)) = Some z"
    and n1: "bind_param (product_name r1) \<noteq> None" and n2: "bind_param (product_name r2) \<noteq> None"
    and fresh: "\<not> list_ex (\<lambda>r. sku r = Some s) table"
  shows "\<exists>table1 table2.
           upsertProduct t1 r1 sid1 table = Inr table1 \<and>
           upsertProduct t2 r2 sid2 table1 = Inr table2 \<and>
           rows_for s z table2 = [(values_row t2 r2 sid2)\<lparr>scraped_date := t1\<rparr>]"
proof -
  define v1 where "v1 = values_row t1 r1 sid1"
  define v2 where "v2 = values_row t2 r2 sid2"
  define k where "k = conflicts_sku_location_zip (sku v2) (location_zip v2)"
  have nf: "\<not> list_ex (conflicts_sku (sku v1)) table"
    using fresh s1 by (auto simp: list_ex_iff conflicts_sku_def v1_def)
  have u1: "upsertProduct t1 r1 sid1 table = Inr (table @ [v1])"
    unfolding v1_def using n1 nf[unfolded v1_def] by (intro upsert_insert) simp_all
  have k: "k r \<longleftrightarrow> sku r = Some s \<and> location_zip r = Some z" for r
    using s2 z2 by (auto simp: k_def v2_def conflicts_sku_location_zip_def)
  have notin: "\<not> k r" if "r \<in> set table" for r
    using fresh that by (auto simp: list_ex_iff k)
  have k1: "k v1"
    using s1 z1 by (simp add: k v1_def)
  have u2: "upsertProduct t2 r2 sid2 (table @ [v1]) =
     Inr (map (\<lambda>r. if k r then do_update t2 v2 r else r) (table @ [v1]))"
    unfolding k_def v2_def using n2 k1[unfolded k_def v2_def]
    by (intro upsert_update) (simp_all add: list_ex_iff)
  have m: "map (\<lambda>r. if k r then do_update t2 v2 r else r) table = table"
    using notin by (intro map_idI) auto
  have f: "filter k table = []"
    using notin by (auto simp: filter_empty_conv)
  have d: "do_update t2 v2 v1 = v2\<lparr>scraped_date := t1\<rparr>"
    unfolding v1_def v2_def using s1 s2 z1 z2 by (simp add: do_update_values)
  have r: "rows_for s z tb = filter k tb" for tb
    unfolding rows_for_def by (rule filter_cong) (simp_all add: k)
  have kd: "k (v2\<lparr>scraped_date := t1\<rparr>)"
    using k1 unfolding d[symmetric] k by simp
  have "rows_for s z (map (\<lambda>r. if k r then do_update t2 v2 r else r) (table @ [v1]))
          = [v2\<lparr>scraped_date := t1\<rparr>]"
    unfolding r using k1 kd by (simp add: m f d)
  with u1 u2 show ?thesis unfolding v2_def by simp
qed


lemma upsert_stored:
  assumes "upsertProduct tm p sid table = Inr table'"
  shows "stored table' p"
proof -
  define v where "v = values_row tm p sid"
  define k where "k = conflicts_sku_location_zip (sku v) (location_zip v)"
  show ?thesis
  proof (cases "list_ex k table")
    case True
    then obtain r where r: "r \<in> set table" "k r" by (auto simp: list_ex_iff)
    from assms True have t': "table' = map (\<lambda>r. if k r then do_update tm v r else r) table"
      by (auto simp: upsertProduct_def Let_def k_def v_def split: if_splits)
    from r have "do_update tm v r \<in> set table'" unfolding t' by force
    moreover from r(2) have "sku (do_update tm v r) = bind_param (sku p)"
      "location_zip (do_update tm v r) = bind_param (with_default ''97209'' (location_zip p))"
      by (auto simp: k_def v_def conflicts_sku_location_zip_def)
    ultimately show ?thesis unfolding stored_def list_ex_iff by blast
  next
    case False
    with assms have "table' = table @ [v]"
      by (auto simp: upsertProduct_def Let_def k_def v_def split: if_splits)
    then show ?thesis by (simp add: stored_def v_def)
  qed
qed

lemma upsert_preserves_stored:
  assumes "upsertProduct tm p sid table = Inr table'" and "stored table q"
  shows "stored table' q"
proof -
  define v where "v = values_row tm p sid"
  define k where "k = conflicts_sku_location_zip (sku v) (location_zip v)"
  from assms(2) obtain r where r: "r \<in> set table" "sku r = bind_param (sku q)"
      "location_zip r = bind_param (with_default ''97209'' (location_zip q))"
    by (auto simp: stored_def list_ex_iff)
  show ?thesis
  proof (cases "list_ex k table")
    case True
    with assms have t': "table' = map (\<lambda>r. if k r then do_update tm v r else r) table"
      by (auto simp: upsertProduct_def Let_def k_def v_def split: if_splits)
    from r(1) have "(if k r then do_update tm v r else r) \<in> set table'" unfolding t' by force
    moreover have "sku (if k r then do_update tm v r else r) = sku r"
      "location_zip (if k r then do_update tm v r else r) = location_zip r" by simp_all
    ultimately have "\<exists>r'\<in>set table'. sku r' = bind_param (sku q) \<and>
        location_zip r' = bind_param (with_default ''97209'' (location_zip q))"
      using r(2,3) by (intro bexI[of _ "if k r then do_update tm v r else r"]) simp_all
    then show ?thesis unfolding stored_def list_ex_iff .
  next
    case False
    with assms have "table' = table @ [v]"
      by (auto simp: upsertProduct_def Let_def k_def v_def split: if_splits)
    with r show ?thesis by (auto simp: stored_def list_ex_iff)
  qed
qed

text \<open>An upsert leaves every row it does not conflict with on \<open>(sku, location_zip)\<close> as it
  is.\<close>
lemma upsert_keeps_other_rows:
  assumes "upsertProduct tm p sid table = Inr table'" and "r \<in> set table"
    and "\<not> conflicts_sku_location_zip (bind_param (sku p))
            (bind_param (with_default ''97209'' (location_zip p))) r"
  shows "r \<in> set table'"
  using assms by (auto simp: upsertProduct_def Let_def split: if_splits)

lemma batch_loop_inv:
  "\<exists>res' new table'.
     batch_loop clock i ps sid (res, logged, table) = (res', logged @ new, table') \<and>
     saved res' + length new = saved res + length ps \<and>
     errors res' = errors res + length new \<and>
     sorted_wrt (<) new \<and> set new \<subseteq> {i + 1 .. i + length ps} \<and>
     (\<forall>j<length ps. i + j + 1 \<notin> set new \<longrightarrow> stored table' (ps ! j)) \<and>
     (\<forall>q. stored table q \<longrightarrow> stored table' q)"
proof (induction ps arbitrary: i res logged table)
  case Nil
  show ?case by simp
next
  case (Cons p ps)
  show ?case
  proof (cases "upsertProduct (clock i) p sid table")
    case (Inr t1)
    from Cons.IH[of "i + 1" "res\<lparr>saved := saved res + 1\<rparr>" logged t1]
    obtain res' new table' where
      b: "batch_loop clock (i + 1) ps sid (res\<lparr>saved := saved res + 1\<rparr>, logged, t1) = (res', logged @ new, table')"
      and c: "saved res' + length new = saved res + 1 + length ps" "errors res' = errors res + length new"
      and s: "sorted_wrt (<) new" "set new \<subseteq> {i + 1 + 1 .. i + 1 + length ps}"
      and st: "\<forall>j<length ps. i + 1 + j + 1 \<notin> set new \<longrightarrow> stored table' (ps ! j)"
      and pr: "\<forall>q. stored t1 q \<longrightarrow> stored table' q"
      by auto
    have p: "stored table' p" using upsert_stored[OF Inr] pr by blast
    have "\<forall>j<length (p # ps). i + j + 1 \<notin> set new \<longrightarrow> stored table' ((p # ps) ! j)"
    proof (intro allI impI)
      fix j assume j: "j < length (p # ps)" "i + j + 1 \<notin> set new"
      show "stored table' ((p # ps) ! j)"
      proof (cases j)
        case 0 then show ?thesis using p by simp
      next
        case (Suc j') then show ?thesis using j st by simp
      qed
    qed
    moreover have "\<forall>q. stored table q \<longrightarrow> stored table' q"
      using upsert_preserves_stored[OF Inr] pr by blast
    moreover have "set new \<subseteq> {i + 1 .. i + length (p # ps)}" using s(2) by auto
    ultimately show ?thesis using Inr b c s(1) by simp
  next
    case (Inl e)
    from Cons.IH[of "i + 1" "res\<lparr>errors := errors res + 1\<rparr>" "logged @ [i + 1]" table]
    obtain res' new table' where
      b: "batch_loop clock (i + 1) ps sid (res\<lparr>errors := errors res + 1\<rparr>, logged @ [i + 1], table)
            = (res', (logged @ [i + 1]) @ new, table')"
      and c: "saved res' + length new = saved res + length ps" "errors res' = errors res + 1 + length new"
      and s: "sorted_wrt (<) new" "set new \<subseteq> {i + 1 + 1 .. i + 1 + length ps}"
      and st: "\<forall>j<length ps. i + 1 + j + 1 \<notin> set new \<longrightarrow> stored table' (ps ! j)"
      and pr: "\<forall>q. stored table q \<longrightarrow> stored table' q"
      by auto
    have "\<forall>j<length (p # ps). i + j + 1 \<notin> set ((i + 1) # new) \<longrightarrow> stored table' ((p # ps) ! j)"
    proof (intro allI impI)
      fix j assume j: "j < length (p # ps)" "i + j + 1 \<notin> set ((i + 1) # new)"
      show "stored table' ((p # ps) ! j)"
      proof (cases j)
        case 0 then show ?thesis using j by simp
      next
        case (Suc j') then show ?thesis using j st by simp
      qed
    qed
    moreover have "set ((i + 1) # new) \<subseteq> {i + 1 .. i + length (p # ps)}" using s(2) by auto
    moreover have "sorted_wrt (<) ((i + 1) # new)" using s by auto
    ultimately show ?thesis using Inl b c pr
      by (intro exI[of _ res'] exI[of _ "(i + 1) # new"] exI[of _ table']) simp
  qed
qed





text \<open>
  Claim C3 (composite-key uniqueness), evaluated.  \<open>createTable\<close> declares \<open>sku TEXT UNIQUE\<close>
  beside \<open>UNIQUE(sku, location_zip)\<close>: on an empty table the product is inserted for
  location 97209, and the same SKU for location 10001 is then rejected by the column
  constraint, so the table never holds two rows of one SKU.
\<close>

theorem upsertProduct_second_location_rejected:
  "upsertProduct 1 (product_at ''97209'' ''Apples'') None []
     = Inr [values_row 1 (product_at ''97209'' ''Apples'') None]
   \<and> upsertProduct 2 (product_at ''10001'' ''Apples'') None
         [values_row 1 (product_at ''97209'' ''Apples'') None]
     = Inl (Error ''Error'' ''SQLITE_CONSTRAINT: UNIQUE constraint failed: sysco_products.sku'')"
  by (simp add: upsertProduct_def product_at_def mk_product_def values_row_def Let_def
      conflicts_sku_def conflicts_sku_location_zip_def)

text \<open>
  Claim C1 (upsert idempotence), evaluated.  The table holds SKU 7229038 for location 97209
  and no row for the key (7229038, 10001).  Both upserts of that key are rejected by the
  column constraint on \<open>sku\<close>, and the key is left with no row.  (Lemma
  \<open>upsertProduct_twice\<close> shows the one row with the second call's values when no row
  carries the SKU.)
\<close>

theorem upsertProduct_twice_rejected:
  "rows_for ''7229038'' ''10001'' [values_row 1 (product_at ''97209'' ''Apples'') None] = []
   \<and> upsertProduct 2 (product_at ''10001'' ''Apples'') None
         [values_row 1 (product_at ''97209'' ''Apples'') None]
     = Inl (Error ''Error'' ''SQLITE_CONSTRAINT: UNIQUE constraint failed: sysco_products.sku'')
   \<and> upsertProduct 3 (product_at ''10001'' ''Pears'') None
         [values_row 1 (product_at ''97209'' ''Apples'') None]
     = Inl (Error ''Error'' ''SQLITE_CONSTRAINT: UNIQUE constraint failed: sysco_products.sku'')"
  by (simp add: upsertProduct_def product_at_def mk_product_def values_row_def Let_def
      conflicts_sku_def conflicts_sku_location_zip_def rows_for_def)
section \<open>Properties of the scraper\<close>


lemma set_dedupe_from: "set (dedupe_from seen xs) = set xs - set seen"
  by (induction xs arbitrary: seen) auto

lemma distinct_dedupe_from: "distinct (dedupe_from seen xs)"
  by (induction xs arbitrary: seen) (auto simp: set_dedupe_from)

lemma set_dedupe: "set (dedupe xs) = set xs"
  by (simp add: dedupe_def set_dedupe_from)

lemma distinct_dedupe: "distinct (dedupe xs)"
  by (simp add: dedupe_def distinct_dedupe_from)


text \<open>
  Claim C10 (product-link filtering).  The configured link selector matches anchors whose
  \<open>href\<close> contains \<open>/product-details/\<close>, the configured filter is \<open>/product/\<close>, and the
  former does not contain the latter.  The links \<open>scrapeProductsFromPage\<close> collects are the
  \<open>href\<close>s of the matched anchors that contain the filter, each once.  On a page where no
  matched \<open>href\<close> contains the filter the list is empty and the page yields no product.
\<close>

theorem product_link_filtering:
  \<open>productLinks (syscoConfig e) = ''a[href*="/product-details/"]''
   \<and> productUrlFilter (syscoConfig e) = ''/product/''
   \<and> \<not> js_includes ''/product-details/'' ''/product/''
   \<and> set (product_links cfg d) =
        {h. h \<in> href ` set (querySelectorAll d (productLinks cfg)) \<and> js_includes h (productUrlFilter cfg)}
   \<and> distinct (product_links cfg d)
   \<and> ((\<forall>el \<in> set (querySelectorAll d (productLinks cfg)). \<not> js_includes (href el) (productUrlFilter cfg))
        \<longrightarrow> product_links cfg d = []
          \<and> (document drv (delay drv (pageLoad cfg) (browser w)) = Inr d \<longrightarrow>
               scrapeProductsFromPage drv cfg categoryName pageNumber w
                 = (Inr [], w\<lparr>browser := delay drv (pageLoad cfg) (browser w)\<rparr>)))\<close>
proof -
  have s: "set (product_links cfg d) =
        {h. h \<in> href ` set (querySelectorAll d (productLinks cfg)) \<and> js_includes h (productUrlFilter cfg)}"
    by (auto simp: product_links_def set_dedupe)
  have e: "product_links cfg d = []"
    if "\<forall>el \<in> set (querySelectorAll d (productLinks cfg)). \<not> js_includes (href el) (productUrlFilter cfg)"
  proof -
    from that have "set (product_links cfg d) = {}" unfolding s by auto
    then show ?thesis by simp
  qed
  have p: "scrapeProductsFromPage drv cfg categoryName pageNumber w
                 = (Inr [], w\<lparr>browser := delay drv (pageLoad cfg) (browser w)\<rparr>)"
    if "product_links cfg d = []" "document drv (delay drv (pageLoad cfg) (browser w)) = Inr d"
    using that by (simp add: scrapeProductsFromPage_def Let_def)
  show ?thesis
    using s e p by (simp add: syscoConfig_def product_links_def distinct_dedupe)
qed



lemma grows_refl [simp]: "grows w w"
  by (simp add: grows_def)

lemma grows_trans: "grows w w' \<Longrightarrow> grows w' w'' \<Longrightarrow> grows w w''"
  unfolding grows_def by (metis append.assoc)

lemma grows_browser [simp]: "grows w (w'\<lparr>browser := b\<rparr>) = grows w w'"
  and grows_browser' [simp]: "grows (w\<lparr>browser := b\<rparr>) w' = grows w w'"
  by (simp_all add: grows_def)

lemma grows_logger [simp]: "grows w (logger l w)"
  by (simp add: grows_def logger_def)

lemma batch_preserves_stored:
  "stored t q \<Longrightarrow> stored (snd (snd (batchUpsertProducts clock ps sid t))) q"
proof -
  assume a: "stored t q"
  from batch_loop_inv[of clock 0 ps sid "\<lparr>saved = 0, errors = 0\<rparr>" "[]" t]
  obtain res new t' where
    b: "batch_loop clock 0 ps sid (\<lparr>saved = 0, errors = 0\<rparr>, [], t) = (res, new, t')"
    and pr: "\<forall>q. stored t q \<longrightarrow> stored t' q" by auto
  show ?thesis using a b pr by (cases ps) (simp_all add: batchUpsertProducts_def)
qed

lemma scrapeProductsFromPage_grows:
  "scrapeProductsFromPage drv cfg c n w = (r, w') \<Longrightarrow>
     grows w w' \<and> logs w' = logs w \<and> exports w' = exports w"
  by (auto simp: scrapeProductsFromPage_def Let_def grows_def batch_preserves_stored
      split: sum.splits if_splits prod.splits)

lemma navigateToNextPage_logs:
  "navigateToNextPage drv cfg u w = (r, w') \<Longrightarrow>
     logs w' = logs w @ [LogLookingForNextPage] \<and> db w' = db w \<and> exports w' = exports w"
  by (auto simp: navigateToNextPage_def Let_def logger_def split: sum.splits if_splits prod.splits)

lemma navigateToNextPage_grows:
  "navigateToNextPage drv cfg u w = (r, w') \<Longrightarrow> grows w w'"
  by (drule navigateToNextPage_logs) (simp add: grows_def)


lemma pages_logged_simps [simp]:
  "pages_logged [] = 0"
  "pages_logged (LogPage c n # ls) = Suc (pages_logged ls)"
  "pages_logged (LogLookingForNextPage # ls) = pages_logged ls"
  "pages_logged (xs @ ys) = pages_logged xs + pages_logged ys"
  by (simp_all add: pages_logged_def is_LogPage_def)

lemma pages_loop_frame:
  "pages_loop drv cfg c cp u acc w = (r, w') \<Longrightarrow>
     grows w w' \<and> exports w' = exports w \<and>
     (\<exists>more. logs w' = logs w @ more \<and>
             int (pages_logged more) \<le> max 0 (maxPagesPerCategory cfg + 1 - cp))"
proof (induction drv cfg c cp u acc w arbitrary: r w' rule: pages_loop.induct)
  case (1 drv cfg c cp u acc w)
  show ?case
  proof (cases "cp \<le> maxPagesPerCategory cfg \<and> int (length acc) < maxProductsPerCategory cfg")
    case False
    with "1.prems" have "w' = w" by (subst (asm) pages_loop.simps) auto
    then show ?thesis by simp
  next
    case True
    obtain x w1 where sp: "scrapeProductsFromPage drv cfg c cp (logger (LogPage c cp) w) = (x, w1)"
      by (cases "scrapeProductsFromPage drv cfg c cp (logger (LogPage c cp) w)")
    from scrapeProductsFromPage_grows[OF sp]
    have g1: "grows w w1" and l1: "logs w1 = logs w @ [LogPage c cp]" and e1: "exports w1 = exports w"
      using grows_trans[OF grows_logger] by (auto simp: logger_def)
    have one: "int (pages_logged [LogPage c cp]) \<le> max 0 (maxPagesPerCategory cfg + 1 - cp)"
      using True by simp
    show ?thesis
    proof (cases x)
      case (Inl e)
      with True sp "1.prems" have "w' = w1" by (subst (asm) pages_loop.simps) auto
      with g1 l1 e1 one show ?thesis by auto
    next
      case (Inr pageProducts)
      show ?thesis
      proof (cases "cp \<ge> maxPagesPerCategory cfg")
        case True
        with \<open>cp \<le> maxPagesPerCategory cfg \<and> _\<close> sp Inr "1.prems" have "w' = w1"
          by (subst (asm) pages_loop.simps) auto
        with g1 l1 e1 one show ?thesis by auto
      next
        case notlast: False
        obtain y w2 where nv: "navigateToNextPage drv cfg u w1 = (y, w2)"
          by (cases "navigateToNextPage drv cfg u w1")
        from navigateToNextPage_logs[OF nv] navigateToNextPage_grows[OF nv]
        have g2: "grows w w2" and l2: "logs w2 = logs w @ [LogPage c cp, LogLookingForNextPage]"
          and e2: "exports w2 = exports w"
          using g1 l1 e1 grows_trans by auto
        have two: "int (pages_logged [LogPage c cp, LogLookingForNextPage])
                     \<le> max 0 (maxPagesPerCategory cfg + 1 - cp)"
          using True by simp
        show ?thesis
        proof (cases y)
          case (Inl e)
          with True sp Inr notlast nv "1.prems" have "w' = w2"
            by (subst (asm) pages_loop.simps) auto
          with g2 l2 e2 two show ?thesis by auto
        next
          case has: (Inr hasNextPage)
          show ?thesis
          proof (cases hasNextPage)
            case False
            with True sp Inr notlast nv has "1.prems" have "w' = w2"
              by (subst (asm) pages_loop.simps) auto
            with g2 l2 e2 two show ?thesis by auto
          next
            case yes: True
            with True sp Inr notlast nv has "1.prems"
            have rec: "pages_loop drv cfg c (cp + 1) (url drv (browser w2)) (acc @ pageProducts) w2 = (r, w')"
              by (subst (asm) pages_loop.simps) auto
            from "1.IH"[OF True sp[symmetric] Inr notlast nv[symmetric] has _ rec] yes
            obtain more where g3: "grows w2 w'" and e3: "exports w' = exports w2"
              and l3: "logs w' = logs w2 @ more"
              and c3: "int (pages_logged more) \<le> max 0 (maxPagesPerCategory cfg + 1 - (cp + 1))"
              by auto
            have "int (pages_logged ([LogPage c cp, LogLookingForNextPage] @ more))
                    \<le> max 0 (maxPagesPerCategory cfg + 1 - cp)"
              using c3 True notlast by simp
            with g2 g3 e2 e3 l2 l3 show ?thesis
              using grows_trans by (intro conjI exI[of _ "[LogPage c cp, LogLookingForNextPage] @ more"]) auto
          qed
        qed
      qed
    qed
  qed
qed


lemma pages_loop_stop:
  "\<not> (cp \<le> maxPagesPerCategory cfg \<and> int (length acc) < maxProductsPerCategory cfg) \<Longrightarrow>
   pages_loop drv cfg c cp u acc w = (Inr (acc, cp), w)"
  by (subst pages_loop.simps) auto

lemma pages_loop_last:
  "cp \<le> maxPagesPerCategory cfg \<Longrightarrow> int (length acc) < maxProductsPerCategory cfg \<Longrightarrow>
   scrapeProductsFromPage drv cfg c cp (logger (LogPage c cp) w) = (Inr ps, w1) \<Longrightarrow>
   cp \<ge> maxPagesPerCategory cfg \<Longrightarrow>
   pages_loop drv cfg c cp u acc w = (Inr (acc @ ps, cp), w1)"
  by (subst pages_loop.simps) auto

lemma pages_loop_next:
  "cp < maxPagesPerCategory cfg \<Longrightarrow> int (length acc) < maxProductsPerCategory cfg \<Longrightarrow>
   scrapeProductsFromPage drv cfg c cp (logger (LogPage c cp) w) = (Inr ps, w1) \<Longrightarrow>
   navigateToNextPage drv cfg u w1 = (Inr True, w2) \<Longrightarrow>
   pages_loop drv cfg c cp u acc w =
     pages_loop drv cfg c (cp + 1) (url drv (browser w2)) (acc @ ps) w2"
  by (subst pages_loop.simps) auto

lemma pages_loop_three:
  assumes m: "maxPagesPerCategory cfg = 3"
    and nxt: "\<forall>u w. \<exists>w'. navigateToNextPage drv cfg u w = (Inr True, w')"
    and page: "\<forall>n w. \<exists>ps w'. scrapeProductsFromPage drv cfg c n w = (Inr ps, w')"
    and run: "pages_loop drv cfg c 1 u [] w = (r, w')"
  shows "(\<exists>al. r = Inr (al, 3) \<and>
            logs w' = logs w @ [LogPage c 1, LogLookingForNextPage, LogPage c 2,
                                LogLookingForNextPage, LogPage c 3])
         \<or> (\<exists>al n. r = Inr (al, n) \<and> maxProductsPerCategory cfg \<le> int (length al))"
proof (cases "0 < maxProductsPerCategory cfg")
  case False
  then have "pages_loop drv cfg c 1 u [] w = (Inr ([], 1), w)"
    by (intro pages_loop_stop) simp
  with run False show ?thesis by auto
next
  case c0: True
  obtain ps1 w1 where p1: "scrapeProductsFromPage drv cfg c 1 (logger (LogPage c 1) w) = (Inr ps1, w1)"
    using page by blast
  obtain w2 where n1: "navigateToNextPage drv cfg u w1 = (Inr True, w2)"
    using nxt by blast
  have l2: "logs w2 = logs w @ [LogPage c 1, LogLookingForNextPage]"
    using scrapeProductsFromPage_grows[OF p1] navigateToNextPage_logs[OF n1] by (simp add: logger_def)
  have s1: "pages_loop drv cfg c 1 u [] w = pages_loop drv cfg c 2 (url drv (browser w2)) ps1 w2"
    using pages_loop_next[OF _ _ p1 n1] m c0 by simp
  show ?thesis
  proof (cases "int (length ps1) < maxProductsPerCategory cfg")
    case False
    then have "pages_loop drv cfg c 2 (url drv (browser w2)) ps1 w2 = (Inr (ps1, 2), w2)"
      by (intro pages_loop_stop) simp
    with run s1 False show ?thesis by auto
  next
    case c1: True
    obtain ps2 w3 where p2: "scrapeProductsFromPage drv cfg c 2 (logger (LogPage c 2) w2) = (Inr ps2, w3)"
      using page by blast
    obtain w4 where n2: "navigateToNextPage drv cfg (url drv (browser w2)) w3 = (Inr True, w4)"
      using nxt by blast
    have l4: "logs w4 = logs w @ [LogPage c 1, LogLookingForNextPage, LogPage c 2, LogLookingForNextPage]"
      using scrapeProductsFromPage_grows[OF p2] navigateToNextPage_logs[OF n2] l2
      by (simp add: logger_def)
    have s2: "pages_loop drv cfg c 2 (url drv (browser w2)) ps1 w2
                = pages_loop drv cfg c 3 (url drv (browser w4)) (ps1 @ ps2) w4"
      using pages_loop_next[OF _ c1 p2 n2] m by simp
    show ?thesis
    proof (cases "int (length (ps1 @ ps2)) < maxProductsPerCategory cfg")
      case False
      then have "pages_loop drv cfg c 3 (url drv (browser w4)) (ps1 @ ps2) w4
                   = (Inr (ps1 @ ps2, 3), w4)"
        by (intro pages_loop_stop) simp
      with run s1 s2 False show ?thesis by auto
    next
      case c2: True
      obtain ps3 w5 where p3: "scrapeProductsFromPage drv cfg c 3 (logger (LogPage c 3) w4) = (Inr ps3, w5)"
        using page by blast
      have l5: "logs w5 = logs w @ [LogPage c 1, LogLookingForNextPage, LogPage c 2,
                                    LogLookingForNextPage, LogPage c 3]"
        using scrapeProductsFromPage_grows[OF p3] l4 by (simp add: logger_def)
      have "pages_loop drv cfg c 3 (url drv (browser w4)) (ps1 @ ps2) w4
              = (Inr ((ps1 @ ps2) @ ps3, 3), w5)"
        using pages_loop_last[OF _ c2 p3] m by simp
      with run s1 s2 l5 show ?thesis by auto
    qed
  qed
qed


text \<open>What the two tests against \<open>maxProductsPerCategory\<close> do bound: the products of one page,
  and with them the products of one category by twice the limit less one.\<close>

lemma links_loop_length:
  "int (length (fst (links_loop drv cfg links acc b)))
     \<le> max (int (length acc)) (maxProductsPerCategory cfg)"
proof (induction links arbitrary: acc b)
  case Nil
  show ?case by simp
next
  case (Cons link links)
  show ?case
  proof (cases "int (length acc) < maxProductsPerCategory cfg")
    case False
    then show ?thesis by simp
  next
    case True
    obtain x b1 where e: "extractProductDetails drv cfg link b = (x, b1)"
      by (cases "extractProductDetails drv cfg link b")
    show ?thesis
    proof (cases x)
      case (Inl err)
      with True e Cons.IH[of acc b1] show ?thesis by simp
    next
      case (Inr details)
      with True e Cons.IH[of "acc @ [details]" "delay drv (betweenProducts cfg) b1"]
      show ?thesis by simp
    qed
  qed
qed

lemma scrapeProductsFromPage_length:
  assumes "scrapeProductsFromPage drv cfg c n w = (Inr ps, w')"
  shows "int (length ps) \<le> max 0 (maxProductsPerCategory cfg)"
proof -
  have "int (length (fst (links_loop drv cfg links [] b))) \<le> max 0 (maxProductsPerCategory cfg)"
    for links b
    using links_loop_length[of drv cfg links "[]" b] by simp
  then have "int (length x) \<le> max 0 (maxProductsPerCategory cfg)"
    if "links_loop drv cfg links [] b = (x, y)" for links b x y
    using that by (metis fst_conv)
  with assms show ?thesis
    by (auto simp: scrapeProductsFromPage_def Let_def split: sum.splits if_splits prod.splits)
qed

lemma pages_loop_length:
  "pages_loop drv cfg c cp u acc w = (Inr (al, n), w') \<Longrightarrow>
     int (length al) \<le> max (int (length acc)) (2 * maxProductsPerCategory cfg - 1)"
proof (induction drv cfg c cp u acc w arbitrary: al n w' rule: pages_loop.induct)
  case (1 drv cfg c cp u acc w)
  show ?case
  proof (cases "cp \<le> maxPagesPerCategory cfg \<and> int (length acc) < maxProductsPerCategory cfg")
    case False
    with "1.prems" have "al = acc" by (subst (asm) pages_loop.simps) auto
    then show ?thesis by simp
  next
    case True
    obtain x w1 where sp: "scrapeProductsFromPage drv cfg c cp (logger (LogPage c cp) w) = (x, w1)"
      by (cases "scrapeProductsFromPage drv cfg c cp (logger (LogPage c cp) w)")
    show ?thesis
    proof (cases x)
      case (Inl e)
      with True sp "1.prems" show ?thesis by (subst (asm) pages_loop.simps) auto
    next
      case (Inr ps)
      from scrapeProductsFromPage_length[OF sp[unfolded Inr]] True
      have b: "int (length (acc @ ps)) \<le> 2 * maxProductsPerCategory cfg - 1" by simp
      show ?thesis
      proof (cases "cp \<ge> maxPagesPerCategory cfg")
        case True
        with \<open>cp \<le> maxPagesPerCategory cfg \<and> _\<close> sp Inr "1.prems" have "al = acc @ ps"
          by (subst (asm) pages_loop.simps) auto
        with b show ?thesis by simp
      next
        case notlast: False
        obtain y w2 where nv: "navigateToNextPage drv cfg u w1 = (y, w2)"
          by (cases "navigateToNextPage drv cfg u w1")
        show ?thesis
        proof (cases y)
          case (Inl e)
          with True sp Inr notlast nv "1.prems" show ?thesis
            by (subst (asm) pages_loop.simps) auto
        next
          case has: (Inr hasNextPage)
          show ?thesis
          proof (cases hasNextPage)
            case False
            with True sp Inr notlast nv has "1.prems" have "al = acc @ ps"
              by (subst (asm) pages_loop.simps) auto
            with b show ?thesis by simp
          next
            case yes: True
            with True sp Inr notlast nv has "1.prems"
            have rec: "pages_loop drv cfg c (cp + 1) (url drv (browser w2)) (acc @ ps) w2
                         = (Inr (al, n), w')"
              by (subst (asm) pages_loop.simps) auto
            from "1.IH"[OF True sp[symmetric] Inr notlast nv[symmetric] has _ rec] yes b
            show ?thesis by simp
          qed
        qed
      qed
    qed
  qed
qed

text \<open>
  Claim C6, amended (pagination termination).  The \<open>while\<close> loop of \<open>scrapeCategory\<close>, entered
  at page 1 with no product, never scrapes more than \<open>maxPagesPerCategory\<close> pages.  With
  \<open>maxPagesPerCategory = 3\<close>, a next-page control that is always usable and page scrapes that
  do not throw, it either scrapes exactly pages 1, 2 and 3, advancing after pages 1 and 2
  and not after page 3, or it has stopped with at least \<open>maxProductsPerCategory\<close> products
  collected.
\<close>

theorem pagination_termination:
  assumes run: "pages_loop drv cfg c 1 u [] w = (r, w')"
  shows "(\<exists>more. logs w' = logs w @ more \<and> int (pages_logged more) \<le> max 0 (maxPagesPerCategory cfg))
       \<and> (maxPagesPerCategory cfg = 3
          \<and> (\<forall>u w. \<exists>w'. navigateToNextPage drv cfg u w = (Inr True, w'))
          \<and> (\<forall>n w. \<exists>ps w'. scrapeProductsFromPage drv cfg c n w = (Inr ps, w'))
          \<longrightarrow> (\<exists>al. r = Inr (al, 3) \<and>
                  logs w' = logs w @ [LogPage c 1, LogLookingForNextPage, LogPage c 2,
                                      LogLookingForNextPage, LogPage c 3])
             \<or> (\<exists>al n. r = Inr (al, n) \<and> maxProductsPerCategory cfg \<le> int (length al)))"
  using pages_loop_frame[OF run] pages_loop_three[OF _ _ _ run] by auto

lemma scrapeCategory_grows:
  assumes "scrapeCategory drv cfg c w = (r, w')"
  shows "grows w w' \<and> exports w' = exports w"
proof -
  have pl: "grows w0 w4 \<and> exports w4 = exports w0"
    if "pages_loop drv cfg c 1 u [] w0 = (x, w4)" for w0 w4 u x
    using pages_loop_frame[OF that] by simp
  show ?thesis
    using assms
    by (auto simp: scrapeCategory_def Let_def split: option.splits if_splits prod.splits sum.splits
        dest!: pl)
qed

lemma export_category_frame:
  "db (export_category drv c ps w) = db w \<and> browser (export_category drv c ps w) = browser w \<and>
   (\<exists>more. exports (export_category drv c ps w) = exports w @ more) \<and>
   (\<exists>more. logs (export_category drv c ps w) = logs w @ more)"
  by (simp add: export_category_def exportToCsv_def logger_def split: sum.splits)

lemma export_category_grows: "grows w (export_category drv c ps w)"
  using export_category_frame[of drv c ps w] by (simp add: grows_def)

lemma categories_loop_grows:
  "categories_loop drv cfg cs acc w = (res, w') \<Longrightarrow> grows w w' \<and> (\<exists>more. res = acc @ more)"
proof (induction cs arbitrary: acc w)
  case Nil
  then show ?case by simp
next
  case (Cons c cs)
  obtain x w1 where sc: "scrapeCategory drv cfg c w = (x, w1)" by (cases "scrapeCategory drv cfg c w")
  have g1: "grows w w1" using scrapeCategory_grows[OF sc] by simp
  show ?case
  proof (cases x)
    case (Inl e)
    with sc Cons.prems
    have "categories_loop drv cfg cs acc (logger (LogCategoryError c (message e)) w1) = (res, w')"
      by simp
    from Cons.IH[OF this] g1 show ?thesis
      using grows_trans grows_logger by blast
  next
    case (Inr ps)
    define w2 where "w2 = export_category drv c ps w1"
    from sc Inr Cons.prems
    have "categories_loop drv cfg cs (acc @ ps)
            (w2\<lparr>browser := delay drv (betweenCategories cfg) (browser w2)\<rparr>) = (res, w')"
      by (simp add: w2_def Let_def)
    from Cons.IH[OF this] have "grows w2 w'" and "\<exists>more. res = (acc @ ps) @ more" by simp_all
    moreover have "grows w1 w2" unfolding w2_def by (rule export_category_grows)
    ultimately show ?thesis using g1 grows_trans by (metis append.assoc)
  qed
qed

lemma categories_loop_append:
  "categories_loop drv cfg (xs @ ys) acc w =
     (case categories_loop drv cfg xs acc w of (acc', w') \<Rightarrow> categories_loop drv cfg ys acc' w')"
  by (induction xs arbitrary: acc w) (auto simp: Let_def split: prod.splits sum.splits)

text \<open>
  Claim C4 (category isolation).  When the walk of a category throws, after the categories
  before it have been walked, the loop logs the error and goes on with the categories after
  it, from the state the failed walk left: the products of the categories before are in
  the result, every product stored before the failure is still stored at the end, the
  exports made before are still there, and the error is in the log.
\<close>

theorem category_isolation:
  assumes before: "categories_loop drv cfg before acc w = (accA, wA)"
    and failing: "scrapeCategory drv cfg failing wA = (Inl e, wB)"
    and run: "categories_loop drv cfg (before @ failing # after) acc w = (result, wF)"
  shows "categories_loop drv cfg after accA (logger (LogCategoryError failing (message e)) wB)
           = (result, wF)
         \<and> (\<exists>rest. result = accA @ rest)
         \<and> (\<forall>q. stored (db wA) q \<longrightarrow> stored (db wF) q)
         \<and> (\<exists>more. exports wF = exports wA @ more)
         \<and> (\<exists>more. logs wF = logs wB @ LogCategoryError failing (message e) # more)"
proof -
  have c: "categories_loop drv cfg after accA (logger (LogCategoryError failing (message e)) wB)
           = (result, wF)"
    using run before failing by (simp add: categories_loop_append)
  from categories_loop_grows[OF c]
  have g: "grows (logger (LogCategoryError failing (message e)) wB) wF"
    and r: "\<exists>rest. result = accA @ rest" by simp_all
  have gB: "grows wA wB" and eB: "exports wB = exports wA"
    using scrapeCategory_grows[OF failing] by simp_all
  have "grows wA wF" using gB g grows_logger grows_trans by blast
  then have "\<forall>q. stored (db wA) q \<longrightarrow> stored (db wF) q" "\<exists>more. exports wF = exports wA @ more"
    by (simp_all add: grows_def)
  moreover from g have "\<exists>more. logs wF = logs wB @ LogCategoryError failing (message e) # more"
    by (auto simp: grows_def logger_def)
  ultimately show ?thesis using c r by blast
qed

text \<open>
  Claim C9, amended (export after a category).  After a category's walk has returned its
  products, the loop goes on with the remaining categories whatever the export does.  If
  the category yielded a product, \<open>exportToCsv\<close> is called: when it succeeds the table has
  been exported, and when it fails the failure is logged and nothing is exported.  If the
  category yielded no product, nothing is exported and nothing is logged.
\<close>

theorem export_after_category:
  assumes "scrapeCategory drv cfg c w = (Inr ps, w1)"
  shows "\<exists>w2. categories_loop drv cfg (c # rest) acc w =
               categories_loop drv cfg rest (acc @ ps)
                 (w2\<lparr>browser := delay drv (betweenCategories cfg) (browser w1)\<rparr>)
            \<and> db w2 = db w1
            \<and> (ps \<noteq> [] \<longrightarrow>
                 (fst (exportToCsv drv (logger (LogExporting (length ps) c) w1)) = Inr () \<longrightarrow>
                    exports w2 = exports w1 @ [db w1] \<and>
                    logs w2 = logs w1 @ [LogExporting (length ps) c, LogCsvDone])
                 \<and> (\<forall>e. fst (exportToCsv drv (logger (LogExporting (length ps) c) w1)) = Inl e \<longrightarrow>
                      exports w2 = exports w1 \<and>
                      logs w2 = logs w1 @ [LogExporting (length ps) c, LogCsvError c (message e)]))
            \<and> (ps = [] \<longrightarrow> exports w2 = exports w1 \<and> logs w2 = logs w1)"
  using assms
  by (intro exI[of _ "export_category drv c ps w1"])
     (auto simp: export_category_def exportToCsv_def logger_def Let_def split: sum.splits if_splits)

text \<open>
  Claim C8, amended (field defaulting).  When the page has no location marker and the
  configured ZIP is 97209 (its default), the record's \<open>location_zip\<close> is the configured ZIP.
  A missing \<open>brand_name\<close>, \<open>product_name\<close>, \<open>description\<close> or \<open>packaging_information\<close> gets its
  fixed placeholder, and each of the ten other fields read from the page gets the empty
  string.  The record an extraction attempt returns is the record the script read.
\<close>

theorem field_defaulting:
  "(querySelector d (sel_locationZip (productDetails cfg)) = None \<and> zipCode cfg = ''97209'' \<longrightarrow>
      location_zip (extract_script (productDetails cfg) d) = Str (zipCode cfg))
   \<and> (querySelector d (sel_brandName (productDetails cfg)) = None \<longrightarrow>
      brand_name (extract_script (productDetails cfg) d) = Str ''Sysco'')
   \<and> (querySelector d (sel_productName (productDetails cfg)) = None \<longrightarrow>
      product_name (extract_script (productDetails cfg) d) = Str ''Product'')
   \<and> (querySelector d (sel_description (productDetails cfg)) = None \<longrightarrow>
      description (extract_script (productDetails cfg) d) = Str ''Premium quality product from Sysco'')
   \<and> (querySelector d (sel_packagingInformation (productDetails cfg)) = None \<longrightarrow>
      packaging_information (extract_script (productDetails cfg) d) = Str ''Standard packaging'')
   \<and> (querySelector d (sel_sku (productDetails cfg)) = None \<longrightarrow>
      sku (extract_script (productDetails cfg) d) = Str [])
   \<and> (querySelector d (sel_packagingSize (productDetails cfg)) = None \<longrightarrow>
      packaging_size (extract_script (productDetails cfg) d) = Str [])
   \<and> (querySelector d (sel_pictureUrl (productDetails cfg)) = None \<longrightarrow>
      picture_url (extract_script (productDetails cfg) d) = Str [])
   \<and> (querySelector d (sel_category (productDetails cfg)) = None \<longrightarrow>
      category (extract_script (productDetails cfg) d) = Str [])
   \<and> (querySelector d (sel_ingredients (productDetails cfg)) = None \<longrightarrow>
      ingredients (extract_script (productDetails cfg) d) = Str [])
   \<and> (querySelector d (sel_gtin (productDetails cfg)) = None \<longrightarrow>
      gtin (extract_script (productDetails cfg) d) = Str [])
   \<and> (querySelector d (sel_upc (productDetails cfg)) = None \<longrightarrow>
      upc (extract_script (productDetails cfg) d) = Str [])
   \<and> (querySelector d (sel_caseSize (productDetails cfg)) = None \<longrightarrow>
      case_size (extract_script (productDetails cfg) d) = Str [])
   \<and> (querySelector d (sel_weight (productDetails cfg)) = None \<longrightarrow>
      weight (extract_script (productDetails cfg) d) = Str [])
   \<and> (querySelector d (sel_storageInstructions (productDetails cfg)) = None \<longrightarrow>
      storage_instructions (extract_script (productDetails cfg) d) = Str [])
   \<and> (extract_attempt drv cfg u b = (Inr p, b') \<longrightarrow>
      (\<exists>d'. document drv b' = Inr d' \<and> p = extract_script (productDetails cfg) d'))"
proof -
  have a: "extract_attempt drv cfg u b = (Inr p, b') \<longrightarrow>
      (\<exists>d'. document drv b' = Inr d' \<and> p = extract_script (productDetails cfg) d')"
    by (auto simp: extract_attempt_def Let_def split: prod.splits sum.splits option.splits if_splits)
  show ?thesis
    using a
    by (simp add: extract_script_def locationZip_def getTextBySelector_def
        getAttributeBySelector_def js_or_def)
qed

section \<open>Runs on the small sites\<close>


text \<open>The equations that evaluate a run on a site given as data.\<close>

lemmas run_defs = scrapeCategory_def pages_loop.simps scrapeProductsFromPage_def navigateToNextPage_def
  returnToCategoryListPage_def return_try_def already_on_discover_def categoriesVisible_def
  extractProductDetails_def extract_attempt_def extract_script_def locationZip_def
  getTextBySelector_def getAttributeBySelector_def querySelector_def product_links_def
  dedupe_def retry_def retry_run_def retry_loop.simps retryDelay_def shouldRetryError_def
  retryableErrors_def batchUpsertProducts_def upsertProduct_def values_row_def
  conflicts_sku_def conflicts_sku_location_zip_def do_update_def logger_def
  site_driver_def site_document_def anchor_def start_def syscoConfig_def no_env_def limits_def
  js_or_def trim_def is_space_def Let_def scrapeAllCategories_def export_category_def exportToCsv_def
  produce1_def produce2_def produce3_def site_product_def site_row_def

lemma site_next:
  "\<forall>u w. \<exists>w'. navigateToNextPage (site_driver s) cfg u w = (Inr True, w')"
  by (simp add: navigateToNextPage_def site_driver_def Let_def)

lemma site_page:
  "\<forall>n w. \<exists>ps w'. scrapeProductsFromPage (site_driver s) cfg c n w = (Inr ps, w')"
  by (simp add: scrapeProductsFromPage_def site_driver_def Let_def split: prod.splits)

text \<open>The theorem on a site with four products on three pages, under the default limit of
  500 products.\<close>

theorem pagination_termination_witness:
  "maxPagesPerCategory (limits (Some 3) None) = 3
   \<and> (\<forall>u w. \<exists>w'. navigateToNextPage (site_driver orchard) (limits (Some 3) None) u w = (Inr True, w'))
   \<and> (\<forall>n w. \<exists>ps w'. scrapeProductsFromPage (site_driver orchard) (limits (Some 3) None) ''Produce'' n w
                        = (Inr ps, w'))
   \<and> map_sum id (\<lambda>(al, n). (map sku al, n))
        (fst (pages_loop (site_driver orchard) (limits (Some 3) None) ''Produce'' 1 produce1 []
               ((start [])\<lparr>browser := produce1\<rparr>)))
       = Inr ([Str ''/product/1'', Str ''/product/2'', Str ''/product/3'', Str ''/product/4''], 3)
   \<and> logs (snd (pages_loop (site_driver orchard) (limits (Some 3) None) ''Produce'' 1 produce1 []
               ((start [])\<lparr>browser := produce1\<rparr>)))
       = [LogPage ''Produce'' 1, LogLookingForNextPage, LogPage ''Produce'' 2,
          LogLookingForNextPage, LogPage ''Produce'' 3]"
proof -
  define X where "X = pages_loop (site_driver orchard) (limits (Some 3) None) ''Produce'' 1 produce1 []
               ((start [])\<lparr>browser := produce1\<rparr>)"
  have m: "maxPagesPerCategory (limits (Some 3) None) = 3"
    and p: "maxProductsPerCategory (limits (Some 3) None) = 500"
    by (simp_all add: limits_def syscoConfig_def no_env_def)
  have r: "map_sum id (\<lambda>(al, n). (map sku al, n)) (fst X)
       = Inr ([Str ''/product/1'', Str ''/product/2'', Str ''/product/3'', Str ''/product/4''], 3)"
    unfolding X_def by (simp add: run_defs orchard_def)
  have l0: "logs ((start [])\<lparr>browser := produce1\<rparr>) = []" by (simp add: start_def)
  have x: "pages_loop (site_driver orchard) (limits (Some 3) None) ''Produce'' 1 produce1 []
               ((start [])\<lparr>browser := produce1\<rparr>) = (fst X, snd X)"
    by (simp add: X_def)
  from r have nocap: "\<not> (\<exists>al n. fst X = Inr (al, n) \<and> 500 \<le> int (length al))"
    by (cases "fst X") auto
  from pagination_termination[OF x] m p site_next site_page nocap l0
  have "logs (snd X) = [LogPage ''Produce'' 1, LogLookingForNextPage, LogPage ''Produce'' 2,
          LogLookingForNextPage, LogPage ''Produce'' 3]"
    by auto
  with m r site_next site_page show ?thesis unfolding X_def by blast
qed



text \<open>
  Claim C6 as stated fails: with \<open>maxPagesPerCategory = 3\<close>, \<open>maxProductsPerCategory = 1\<close> and a
  next-page control that is always usable, the walk of Produce scrapes page 1 only (its one
  product reaches the limit), advances once and stops.
\<close>

theorem pagination_stops_at_product_limit:
  "maxPagesPerCategory (limits (Some 3) (Some 1)) = 3
   \<and> (\<forall>u w. \<exists>w'. navigateToNextPage (site_driver orchard) (limits (Some 3) (Some 1)) u w
                     = (Inr True, w'))
   \<and> logs (snd (scrapeCategory (site_driver orchard) (limits (Some 3) (Some 1)) ''Produce'' (start [])))
       = [LogPage ''Produce'' 1, LogLookingForNextPage]
   \<and> pages_logged
        (logs (snd (scrapeCategory (site_driver orchard) (limits (Some 3) (Some 1)) ''Produce''
                     (start [])))) = 1
   \<and> pages_logged
        (logs (snd (scrapeCategory (site_driver orchard) (limits (Some 3) (Some 1)) ''Produce''
                     (start [])))) \<noteq> 3"
proof -
  have l: "logs (snd (scrapeCategory (site_driver orchard) (limits (Some 3) (Some 1)) ''Produce'' (start [])))
       = [LogPage ''Produce'' 1, LogLookingForNextPage]"
    by (simp add: run_defs orchard_def)
  have m: "maxPagesPerCategory (limits (Some 3) (Some 1)) = 3"
    by (simp add: limits_def syscoConfig_def no_env_def)
  show ?thesis using m site_next unfolding l by simp
qed

text \<open>
  Claim C7 (per-category product cap), evaluated.  With \<open>maxProductsPerCategory = 2\<close> the walk
  of Produce returns three products: one from page 1, and two from page 2, where
  \<open>scrapeProductsFromPage\<close> counts the products of the page from zero.
\<close>

theorem category_exceeds_maxProductsPerCategory:
  "maxProductsPerCategory (limits None (Some 2)) = 2
   \<and> map_sum id (map sku)
        (fst (scrapeCategory (site_driver orchard) (limits None (Some 2)) ''Produce'' (start [])))
       = Inr [Str ''/product/1'', Str ''/product/2'', Str ''/product/3'']"
  by (simp add: run_defs orchard_def)

text \<open>
  Claim C9 as stated fails: on a site where no category's element is found every one of the
  seven walks returns no product, and although the table holds a row nothing is exported.
\<close>

theorem no_export_for_empty_category:
  "categories (syscoConfig no_env) =
     [''Produce'', ''Meat & Seafood'', ''Bakery & Breads'', ''Dairy & Eggs'', ''Canned & Dry'',
      ''Frozen Foods'', ''Beverages'']
   \<and> db (start [site_row ''/product/1'']) \<noteq> []
   \<and> scrapeAllCategories (site_driver bare) (syscoConfig no_env) (start [site_row ''/product/1''])
       = ([], start [site_row ''/product/1''])
   \<and> exports (snd (scrapeAllCategories (site_driver bare) (syscoConfig no_env)
                     (start [site_row ''/product/1'']))) = []"
proof -
  have "scrapeAllCategories (site_driver bare) (syscoConfig no_env) (start [site_row ''/product/1''])
       = ([], start [site_row ''/product/1''])"
    by (simp add: scrapeAllCategories_def scrapeCategory_def syscoConfig_def no_env_def bare_def
        site_driver_def start_def Let_def export_category_def)
  then show ?thesis by (simp add: start_def syscoConfig_def)
qed



text \<open>
  The theorem of claim C9 at three walks of Produce, each followed by Bakery & Breads: one
  product and an export that succeeds; one product and an output directory that cannot be
  made; a category with no product, on a table that holds a row.
\<close>

theorem export_after_category_witness:
  "(\<exists>w2. categories_loop (site_driver market) (limits (Some 1) None)
            [''Produce'', ''Bakery & Breads''] [] (start [])
          = categories_loop (site_driver market) (limits (Some 1) None) [''Bakery & Breads'']
              ([] @ [site_product ''/product/1''])
              (w2\<lparr>browser := delay (site_driver market) (betweenCategories (limits (Some 1) None))
                              (browser ((start [site_row ''/product/1''])\<lparr>logs := [LogPage ''Produce'' 1]\<rparr>))\<rparr>)
        \<and> exports w2 = [[site_row ''/product/1'']]
        \<and> logs w2 = [LogPage ''Produce'' 1, LogExporting 1 ''Produce'', LogCsvDone])
   \<and> (\<exists>w2. categories_loop (site_driver market_read_only) (limits (Some 1) None)
            [''Produce'', ''Bakery & Breads''] [] (start [])
          = categories_loop (site_driver market_read_only) (limits (Some 1) None) [''Bakery & Breads'']
              ([] @ [site_product ''/product/1''])
              (w2\<lparr>browser := delay (site_driver market_read_only) (betweenCategories (limits (Some 1) None))
                              (browser ((start [site_row ''/product/1''])\<lparr>logs := [LogPage ''Produce'' 1]\<rparr>))\<rparr>)
        \<and> exports w2 = []
        \<and> logs w2 = [LogPage ''Produce'' 1, LogExporting 1 ''Produce'',
                     LogCsvError ''Produce'' ''EACCES: permission denied, mkdir''])
   \<and> (\<exists>w2. categories_loop (site_driver bare) (limits (Some 1) None)
            [''Produce'', ''Bakery & Breads''] [] (start [site_row ''/product/1''])
          = categories_loop (site_driver bare) (limits (Some 1) None) [''Bakery & Breads'']
              ([] @ [])
              (w2\<lparr>browser := delay (site_driver bare) (betweenCategories (limits (Some 1) None))
                              (browser (start [site_row ''/product/1'']))\<rparr>)
        \<and> exports w2 = []
        \<and> logs w2 = [])"
proof -
  let ?cfg = "limits (Some 1) None"
  let ?w1 = "(start [site_row ''/product/1''])\<lparr>logs := [LogPage ''Produce'' 1]\<rparr>"
  have a: "scrapeCategory (site_driver market) ?cfg ''Produce'' (start [])
             = (Inr [site_product ''/product/1''], ?w1)"
    by (simp add: run_defs market_def bare_def)
  have a': "fst (exportToCsv (site_driver market)
                  (logger (LogExporting (length [site_product ''/product/1'']) ''Produce'') ?w1)) = Inr ()"
    by (simp add: exportToCsv_def logger_def site_driver_def market_def start_def)
  have b: "scrapeCategory (site_driver market_read_only) ?cfg ''Produce'' (start [])
             = (Inr [site_product ''/product/1''], ?w1)"
    by (simp add: run_defs market_def market_read_only_def bare_def)
  have b': "fst (exportToCsv (site_driver market_read_only)
                  (logger (LogExporting (length [site_product ''/product/1'']) ''Produce'') ?w1))
              = Inl (Error ''Error'' ''EACCES: permission denied, mkdir'')"
    by (simp add: exportToCsv_def logger_def site_driver_def market_def market_read_only_def start_def)
  have c: "scrapeCategory (site_driver bare) ?cfg ''Produce'' (start [site_row ''/product/1''])
             = (Inr [], start [site_row ''/product/1''])"
    by (simp add: scrapeCategory_def limits_def syscoConfig_def no_env_def bare_def
        site_driver_def start_def Let_def)
  have l: "logs ?w1 = [LogPage ''Produce'' 1]" "exports ?w1 = []" "db ?w1 = [site_row ''/product/1'']"
     "logs (start [site_row ''/product/1'']) = []" "exports (start [site_row ''/product/1'']) = []"
    by (simp_all add: start_def)
  from export_after_category[OF a, of "[''Bakery & Breads'']" "[]"] a' l
  have 1: "\<exists>w2. categories_loop (site_driver market) ?cfg [''Produce'', ''Bakery & Breads''] [] (start [])
          = categories_loop (site_driver market) ?cfg [''Bakery & Breads'']
              ([] @ [site_product ''/product/1''])
              (w2\<lparr>browser := delay (site_driver market) (betweenCategories ?cfg) (browser ?w1)\<rparr>)
        \<and> exports w2 = [[site_row ''/product/1'']]
        \<and> logs w2 = [LogPage ''Produce'' 1, LogExporting 1 ''Produce'', LogCsvDone]"
    by auto
  from export_after_category[OF b, of "[''Bakery & Breads'']" "[]"] b' l
  have 2: "\<exists>w2. categories_loop (site_driver market_read_only) ?cfg [''Produce'', ''Bakery & Breads''] [] (start [])
          = categories_loop (site_driver market_read_only) ?cfg [''Bakery & Breads'']
              ([] @ [site_product ''/product/1''])
              (w2\<lparr>browser := delay (site_driver market_read_only) (betweenCategories ?cfg) (browser ?w1)\<rparr>)
        \<and> exports w2 = []
        \<and> logs w2 = [LogPage ''Produce'' 1, LogExporting 1 ''Produce'',
                     LogCsvError ''Produce'' ''EACCES: permission denied, mkdir'']"
    by auto
  from export_after_category[OF c, of "[''Bakery & Breads'']" "[]"] l
  have 3: "\<exists>w2. categories_loop (site_driver bare) ?cfg [''Produce'', ''Bakery & Breads''] []
                  (start [site_row ''/product/1''])
          = categories_loop (site_driver bare) ?cfg [''Bakery & Breads''] ([] @ [])
              (w2\<lparr>browser := delay (site_driver bare) (betweenCategories ?cfg)
                              (browser (start [site_row ''/product/1'']))\<rparr>)
        \<and> exports w2 = [] \<and> logs w2 = []"
    by auto
  from 1 2 3 show ?thesis by blast
qed



text \<open>
  The theorem of claim C4 on a site where the click on Meat & Seafood is rejected, between
  Produce and Bakery & Breads: the products of both are in the result, in the table and in
  the exports, and the error is in the log.
\<close>

theorem category_isolation_witness:
  "scrapeCategory (site_driver market) (limits (Some 1) None) ''Meat & Seafood''
       (snd (categories_loop (site_driver market) (limits (Some 1) None) [''Produce''] [] (start [])))
     = (Inl (Error ''Error'' ''Execution context was destroyed''),
        snd (categories_loop (site_driver market) (limits (Some 1) None) [''Produce''] [] (start [])))
   \<and> categories_loop (site_driver market) (limits (Some 1) None) [''Bakery & Breads'']
         (fst (categories_loop (site_driver market) (limits (Some 1) None) [''Produce''] [] (start [])))
         (logger (LogCategoryError ''Meat & Seafood'' ''Execution context was destroyed'')
            (snd (categories_loop (site_driver market) (limits (Some 1) None) [''Produce''] [] (start []))))
     = categories_loop (site_driver market) (limits (Some 1) None)
         ([''Produce''] @ ''Meat & Seafood'' # [''Bakery & Breads'']) [] (start [])
   \<and> categories_loop (site_driver market) (limits (Some 1) None)
         [''Produce'', ''Meat & Seafood'', ''Bakery & Breads''] [] (start [])
     = ([site_product ''/product/1'', site_product ''/product/9''],
        \<lparr>browser = ''https://shop.sysco.com/app/discover'',
         db = [site_row ''/product/1'', site_row ''/product/9''],
         exports = [[site_row ''/product/1''], [site_row ''/product/1'', site_row ''/product/9'']],
         logs = [LogPage ''Produce'' 1, LogExporting 1 ''Produce'', LogCsvDone,
                 LogCategoryError ''Meat & Seafood'' ''Execution context was destroyed'',
                 LogPage ''Bakery & Breads'' 1, LogExporting 1 ''Bakery & Breads'', LogCsvDone]\<rparr>)"
proof -
  let ?drv = "site_driver market" and ?cfg = "limits (Some 1) None"
  define X where "X = categories_loop ?drv ?cfg [''Produce''] [] (start [])"
  define Y where "Y = categories_loop ?drv ?cfg ([''Produce''] @ ''Meat & Seafood'' # [''Bakery & Breads'']) [] (start [])"
  have f: "scrapeCategory ?drv ?cfg ''Meat & Seafood'' w
             = (Inl (Error ''Error'' ''Execution context was destroyed''), w)" for w
    by (simp add: scrapeCategory_def limits_def syscoConfig_def no_env_def market_def
        site_driver_def Let_def)
  have x: "categories_loop ?drv ?cfg [''Produce''] [] (start []) = (fst X, snd X)"
    by (simp add: X_def)
  have y: "categories_loop ?drv ?cfg ([''Produce''] @ ''Meat & Seafood'' # [''Bakery & Breads'']) [] (start [])
             = (fst Y, snd Y)"
    by (simp add: Y_def)
  from category_isolation[OF x f y]
  have c: "categories_loop ?drv ?cfg [''Bakery & Breads''] (fst X)
             (logger (LogCategoryError ''Meat & Seafood'' ''Execution context was destroyed'') (snd X)) = Y"
    by simp
  have e: "categories_loop ?drv ?cfg [''Produce'', ''Meat & Seafood'', ''Bakery & Breads''] [] (start [])
     = ([site_product ''/product/1'', site_product ''/product/9''],
        \<lparr>browser = ''https://shop.sysco.com/app/discover'',
         db = [site_row ''/product/1'', site_row ''/product/9''],
         exports = [[site_row ''/product/1''], [site_row ''/product/1'', site_row ''/product/9'']],
         logs = [LogPage ''Produce'' 1, LogExporting 1 ''Produce'', LogCsvDone,
                 LogCategoryError ''Meat & Seafood'' ''Execution context was destroyed'',
                 LogPage ''Bakery & Breads'' 1, LogExporting 1 ''Bakery & Breads'', LogCsvDone]\<rparr>)"
    by (simp add: run_defs market_def bare_def)
  show ?thesis using f[of "snd X"] c e unfolding X_def Y_def by simp
qed

text \<open>The theorem of claim C10 on a listing whose one matched anchor leads to
  \<open>/app/product-details/7229038\<close>.\<close>

theorem product_link_filtering_witness:
  "map href (querySelectorAll (site_document stale produce1) (productLinks (syscoConfig no_env)))
     = [''https://shop.sysco.com/app/product-details/7229038'']
   \<and> \<not> js_includes ''https://shop.sysco.com/app/product-details/7229038''
         (productUrlFilter (syscoConfig no_env))
   \<and> product_links (syscoConfig no_env) (site_document stale produce1) = []
   \<and> scrapeProductsFromPage (site_driver stale) (syscoConfig no_env) ''Produce'' 1
         ((start [])\<lparr>browser := produce1\<rparr>)
     = (Inr [], (start [])\<lparr>browser := produce1\<rparr>)"
proof -
  let ?cfg = "syscoConfig no_env" and ?d = "site_document stale produce1"
  let ?w = "(start [])\<lparr>browser := produce1\<rparr>"
  have h: "map href (querySelectorAll ?d (productLinks ?cfg))
     = [''https://shop.sysco.com/app/product-details/7229038'']"
    by (simp add: site_document_def stale_def syscoConfig_def anchor_def)
  have n: "\<not> js_includes ''https://shop.sysco.com/app/product-details/7229038'' (productUrlFilter ?cfg)"
    by (simp add: syscoConfig_def)
  have b: "\<forall>el \<in> set (querySelectorAll ?d (productLinks ?cfg)). \<not> js_includes (href el) (productUrlFilter ?cfg)"
  proof
    fix el assume "el \<in> set (querySelectorAll ?d (productLinks ?cfg))"
    then have "href el \<in> set (map href (querySelectorAll ?d (productLinks ?cfg)))" by simp
    with h n show "\<not> js_includes (href el) (productUrlFilter ?cfg)" by simp
  qed
  have d: "document (site_driver stale) (delay (site_driver stale) (pageLoad ?cfg) (browser ?w)) = Inr ?d"
    by (simp add: site_driver_def start_def)
  have w: "?w\<lparr>browser := delay (site_driver stale) (pageLoad ?cfg) (browser ?w)\<rparr> = ?w"
    by (simp add: site_driver_def)
  from product_link_filtering[of no_env ?cfg ?d "site_driver stale" ?w "''Produce''" 1] b d w
  have "product_links ?cfg ?d = []"
    and "scrapeProductsFromPage (site_driver stale) ?cfg ''Produce'' 1 ?w = (Inr [], ?w)"
    by simp_all
  with h n show ?thesis by simp
qed



text \<open>The theorem on a document with no element, under the configuration of an empty
  environment, and at an attempt on a product page of the small site.\<close>

theorem field_defaulting_witness:
  "zipCode (syscoConfig no_env) = ''97209''
   \<and> (\<forall>selector. querySelector empty_document selector = None)
   \<and> location_zip (extract_script (productDetails (syscoConfig no_env)) empty_document) = Str (zipCode (syscoConfig no_env))
   \<and> brand_name (extract_script (productDetails (syscoConfig no_env)) empty_document) = Str ''Sysco''
   \<and> product_name (extract_script (productDetails (syscoConfig no_env)) empty_document) = Str ''Product''
   \<and> description (extract_script (productDetails (syscoConfig no_env)) empty_document) = Str ''Premium quality product from Sysco''
   \<and> packaging_information (extract_script (productDetails (syscoConfig no_env)) empty_document) = Str ''Standard packaging''
   \<and> sku (extract_script (productDetails (syscoConfig no_env)) empty_document) = Str []
   \<and> packaging_size (extract_script (productDetails (syscoConfig no_env)) empty_document) = Str []
   \<and> picture_url (extract_script (productDetails (syscoConfig no_env)) empty_document) = Str []
   \<and> category (extract_script (productDetails (syscoConfig no_env)) empty_document) = Str []
   \<and> ingredients (extract_script (productDetails (syscoConfig no_env)) empty_document) = Str []
   \<and> gtin (extract_script (productDetails (syscoConfig no_env)) empty_document) = Str []
   \<and> upc (extract_script (productDetails (syscoConfig no_env)) empty_document) = Str []
   \<and> case_size (extract_script (productDetails (syscoConfig no_env)) empty_document) = Str []
   \<and> weight (extract_script (productDetails (syscoConfig no_env)) empty_document) = Str []
   \<and> storage_instructions (extract_script (productDetails (syscoConfig no_env)) empty_document) = Str []
   \<and> extract_attempt (site_driver bare) (syscoConfig no_env) ''/product/1'' ''/c'' = (Inr (site_product ''/product/1''), ''/product/1'')
   \<and> (\<exists>d'. document (site_driver bare) ''/product/1'' = Inr d' \<and> site_product ''/product/1'' = extract_script (productDetails (syscoConfig no_env)) d')"
proof -
  have z: "zipCode (syscoConfig no_env) = ''97209''"
    by (simp add: syscoConfig_def no_env_def)
  have q: "\<forall>selector. querySelector empty_document selector = None"
    by (simp add: querySelector_def empty_document_def)
  have x: "extract_attempt (site_driver bare) (syscoConfig no_env) ''/product/1'' ''/c''
             = (Inr (site_product ''/product/1''), ''/product/1'')"
    by (simp add: run_defs bare_def)
  from field_defaulting[of empty_document "syscoConfig no_env" "site_driver bare" "''/product/1''"
      "''/c''" "site_product ''/product/1''" "''/product/1''"] z q x
  show ?thesis by simp
qed

text \<open>
  Claim C8 as stated fails: with \<open>SYSCO_LOCATION_ZIP=10001\<close> and no location marker on the
  page, \<open>location_zip\<close> is the literal 97209, not the configured ZIP; and a missing
  \<open>packaging_information\<close> is \<open>Standard packaging\<close>, not the empty string.
\<close>

theorem location_zip_default_is_literal:
  "zipCode (syscoConfig (no_env\<lparr>SYSCO_LOCATION_ZIP := Some ''10001''\<rparr>)) = ''10001''
   \<and> querySelector empty_document (sel_locationZip (productDetails (syscoConfig (no_env\<lparr>SYSCO_LOCATION_ZIP := Some ''10001''\<rparr>)))) = None
   \<and> location_zip (extract_script (productDetails (syscoConfig (no_env\<lparr>SYSCO_LOCATION_ZIP := Some ''10001''\<rparr>))) empty_document) = Str ''97209''
   \<and> location_zip (extract_script (productDetails (syscoConfig (no_env\<lparr>SYSCO_LOCATION_ZIP := Some ''10001''\<rparr>))) empty_document) \<noteq> Str (zipCode (syscoConfig (no_env\<lparr>SYSCO_LOCATION_ZIP := Some ''10001''\<rparr>)))
   \<and> querySelector empty_document (sel_packagingInformation (productDetails (syscoConfig (no_env\<lparr>SYSCO_LOCATION_ZIP := Some ''10001''\<rparr>)))) = None
   \<and> packaging_information (extract_script (productDetails (syscoConfig (no_env\<lparr>SYSCO_LOCATION_ZIP := Some ''10001''\<rparr>))) empty_document) = Str ''Standard packaging''
   \<and> packaging_information (extract_script (productDetails (syscoConfig (no_env\<lparr>SYSCO_LOCATION_ZIP := Some ''10001''\<rparr>))) empty_document) \<noteq> Str []"
  by (simp add: syscoConfig_def no_env_def querySelector_def empty_document_def extract_script_def
      locationZip_def getTextBySelector_def js_or_def)


end
